theory Spec2Isabelle
  imports Main
begin

unbundle bit_operations_syntax

section \<open>Python string primitives used by the pipeline\<close>

text \<open>
  A Python string all of whose code points are below 256 is modelled as the list of
  its code points (a \<open>string\<close>, whose characters are 8 bits wide). On these code
  points \<open>str.lower\<close> maps \<open>A\<close>..\<open>Z\<close> and the upper-case letters \<open>0xC0\<close>..\<open>0xDE\<close>
  (all but the multiplication sign \<open>0xD7\<close>) to the code point 32 above and leaves
  every other character alone. \<open>str.upper\<close> maps \<open>a\<close>..\<open>z\<close> and \<open>0xE0\<close>..\<open>0xFE\<close> (all
  but the division sign \<open>0xF7\<close>) to the code point 32 below; the upper-case forms of
  \<open>0xB5\<close>, \<open>0xDF\<close> and \<open>0xFF\<close> lie outside the range, so \<open>upper\<close> stands for
  \<open>str.upper\<close> only on strings without these three (\<open>upper_exact\<close>). \<open>str.strip\<close>
  removes leading and trailing characters for which \<open>str.isspace\<close> holds: tab, line
  feed, vertical tab, form feed, carriage return, the separators \<open>0x1c\<close>..\<open>0x1f\<close>,
  the space, next-line \<open>0x85\<close> and the no-break space \<open>0xA0\<close>.
\<close>

definition is_upper :: "char \<Rightarrow> bool" where
  "is_upper c =
     ((65 \<le> (of_char c :: nat) \<and> (of_char c :: nat) \<le> 90)
      \<or> (192 \<le> (of_char c :: nat) \<and> (of_char c :: nat) \<le> 222 \<and> (of_char c :: nat) \<noteq> 215))"

definition is_lower :: "char \<Rightarrow> bool" where
  "is_lower c =
     ((97 \<le> (of_char c :: nat) \<and> (of_char c :: nat) \<le> 122)
      \<or> (224 \<le> (of_char c :: nat) \<and> (of_char c :: nat) \<le> 254 \<and> (of_char c :: nat) \<noteq> 247))"

definition lower_char :: "char \<Rightarrow> char" where
  "lower_char c = (if is_upper c then char_of ((of_char c :: nat) + 32) else c)"

definition upper_char :: "char \<Rightarrow> char" where
  "upper_char c = (if is_lower c then char_of ((of_char c :: nat) - 32) else c)"

definition lower :: "string \<Rightarrow> string" where
  "lower s = map lower_char s"

definition upper :: "string \<Rightarrow> string" where
  "upper s = map upper_char s"

definition upper_exact :: "string \<Rightarrow> bool" where
  "upper_exact s = list_all (\<lambda>c. (of_char c :: nat) \<notin> {181, 223, 255}) s"

definition isspace :: "char \<Rightarrow> bool" where
  "isspace c = ((of_char c :: nat) \<in> {9, 10, 11, 12, 13, 28, 29, 30, 31, 32, 133, 160})"

definition lstrip :: "string \<Rightarrow> string" where
  "lstrip s = dropWhile isspace s"

definition rstrip :: "string \<Rightarrow> string" where
  "rstrip s = rev (dropWhile isspace (rev s))"

definition strip :: "string \<Rightarrow> string" where
  "strip s = rstrip (lstrip s)"

text \<open>\<open>p in s\<close> on strings: \<open>p\<close> occurs in \<open>s\<close> as a contiguous block.\<close>

fun startswith :: "'a list \<Rightarrow> 'a list \<Rightarrow> bool" where
  "startswith s [] = True"
| "startswith [] (c # p) = False"
| "startswith (d # s) (c # p) = (d = c \<and> startswith s p)"

fun str_in :: "'a list \<Rightarrow> 'a list \<Rightarrow> bool" where
  "str_in p [] = (p = [])"
| "str_in p (d # s) = (startswith (d # s) p \<or> str_in p s)"


section \<open>Identity hasher (app/utils/hash.py)\<close>

text \<open>
  \<open>hashlib.sha256\<close> is SHA-256 as FIPS 180-4 defines it, written out on 32-bit words
  kept as integers with the wrap-around explicit, so that keys can be computed. The
  round constants and the initial hash value are given in decimal.
\<close>

definition add32 :: "int \<Rightarrow> int \<Rightarrow> int" where
  "add32 x y = (x + y) mod 4294967296"

definition rotr :: "nat \<Rightarrow> int \<Rightarrow> int" where
  "rotr n x = x div 2 ^ n + (x mod 2 ^ n) * 2 ^ (32 - n)"

definition Ch :: "int \<Rightarrow> int \<Rightarrow> int \<Rightarrow> int" where
  "Ch x y z = (x AND y) XOR ((4294967295 - x) AND z)"

definition Maj :: "int \<Rightarrow> int \<Rightarrow> int \<Rightarrow> int" where
  "Maj x y z = (x AND y) XOR (x AND z) XOR (y AND z)"

definition bsig0 :: "int \<Rightarrow> int" where
  "bsig0 x = rotr 2 x XOR rotr 13 x XOR rotr 22 x"

definition bsig1 :: "int \<Rightarrow> int" where
  "bsig1 x = rotr 6 x XOR rotr 11 x XOR rotr 25 x"

definition ssig0 :: "int \<Rightarrow> int" where
  "ssig0 x = rotr 7 x XOR rotr 18 x XOR x div 2 ^ 3"

definition ssig1 :: "int \<Rightarrow> int" where
  "ssig1 x = rotr 17 x XOR rotr 19 x XOR x div 2 ^ 10"

definition K256 :: "int list" where
  "K256 =
    [1116352408, 1899447441, 3049323471, 3921009573, 961987163, 1508970993,
     2453635748, 2870763221, 3624381080, 310598401, 607225278, 1426881987,
     1925078388, 2162078206, 2614888103, 3248222580, 3835390401, 4022224774,
     264347078, 604807628, 770255983, 1249150122, 1555081692, 1996064986,
     2554220882, 2821834349, 2952996808, 3210313671, 3336571891, 3584528711,
     113926993, 338241895, 666307205, 773529912, 1294757372, 1396182291,
     1695183700, 1986661051, 2177026350, 2456956037, 2730485921, 2820302411,
     3259730800, 3345764771, 3516065817, 3600352804, 4094571909, 275423344,
     430227734, 506948616, 659060556, 883997877, 958139571, 1322822218,
     1537002063, 1747873779, 1955562222, 2024104815, 2227730452, 2361852424,
     2428436474, 2756734187, 3204031479, 3329325298]"

definition H0 :: "int list" where
  "H0 =
    [1779033703, 3144134277, 1013904242, 2773480762,
     1359893119, 2600822924, 528734635, 1541459225]"

text \<open>One round on the working variables \<open>a\<close>..\<open>h\<close> with constant \<open>k\<close> and word \<open>w\<close>.\<close>

fun step :: "int \<Rightarrow> int \<Rightarrow> int list \<Rightarrow> int list" where
  "step k w [a, b, c, d, e, f, g, h] =
      [add32 (add32 (add32 (add32 (add32 h (bsig1 e)) (Ch e f g)) k) w)
             (add32 (bsig0 a) (Maj a b c)),
       a, b, c,
       add32 d (add32 (add32 (add32 (add32 h (bsig1 e)) (Ch e f g)) k) w), e, f, g]"
| "step k w st = st"

text \<open>
  The 64 rounds, with the message schedule kept as a window of sixteen words: the word
  used by the round leaves the window and the word sixteen places later enters it.
\<close>

fun rounds :: "int list \<Rightarrow> int list \<Rightarrow> int list \<Rightarrow> int list" where
  "rounds (k # ks) [w0, w1, w2, w3, w4, w5, w6, w7, w8, w9, w10, w11, w12, w13, w14, w15] st =
     rounds ks [w1, w2, w3, w4, w5, w6, w7, w8, w9, w10, w11, w12, w13, w14, w15,
                add32 (add32 (add32 (ssig1 w14) w9) (ssig0 w1)) w0] (step k w0 st)"
| "rounds ks ws st = st"

definition compress :: "int list \<Rightarrow> int list \<Rightarrow> int list" where
  "compress hs block = map2 add32 hs (rounds K256 block hs)"

text \<open>Padding, and the split into blocks of sixteen big-endian words.\<close>

definition pad :: "int list \<Rightarrow> int list" where
  "pad m =
     m @ [128] @ replicate ((119 - length m mod 64) mod 64) 0
       @ map (\<lambda>i. (int (8 * length m) div 256 ^ (7 - i)) mod 256) [0..<8]"

fun be32 :: "int list \<Rightarrow> int list" where
  "be32 (b0 # b1 # b2 # b3 # bs) = (((b0 * 256 + b1) * 256 + b2) * 256 + b3) # be32 bs"
| "be32 bs = []"

fun blocks :: "nat \<Rightarrow> int list \<Rightarrow> int list list" where
  "blocks 0 ws = []"
| "blocks (Suc n) ws = take 16 ws # blocks n (drop 16 ws)"

definition sha256 :: "int list \<Rightarrow> int list" where
  "sha256 m = foldl compress H0 (blocks (length (pad m) div 64) (be32 (pad m)))"

definition hexdigit :: "int \<Rightarrow> char" where
  "hexdigit n = ''0123456789abcdef'' ! nat n"

definition hex32 :: "int \<Rightarrow> string" where
  "hex32 w = map (\<lambda>i. hexdigit ((w div 16 ^ (7 - i)) mod 16)) [0..<8]"

definition hexdigest :: "int list \<Rightarrow> string" where
  "hexdigest hs = concat (map hex32 hs)"

text \<open>\<open>str.encode()\<close>: UTF-8, one byte below 128 and two bytes from 128 to 255.\<close>

definition encode :: "string \<Rightarrow> int list" where
  "encode s =
     concat (map (\<lambda>c. if (of_char c :: nat) < 128 then [of_char c]
                        else [192 + of_char c div 64, 128 + of_char c mod 64]) s)"

definition unique_string :: "string \<Rightarrow> string \<Rightarrow> string \<Rightarrow> string" where
  "unique_string page_id job_url job_title =
     strip (lower (page_id @ '':'' @ job_url @ '':'' @ job_title))"

definition generate_job_external_id :: "string \<Rightarrow> string \<Rightarrow> string \<Rightarrow> string" where
  "generate_job_external_id page_id job_url job_title =
     hexdigest (sha256 (encode (unique_string page_id job_url job_title)))"


section \<open>Data model (app/models)\<close>

type_synonym uuid = string
type_synonym datetime = int

text \<open>
  One raw unit produced by the scraper: a dictionary read with \<open>dict.get\<close>, so each of
  the keys the extractor reads may be absent; the remaining keys (\<open>html_content\<close>,
  \<open>metadata\<close>, \<open>scraped_at\<close>) travel as an opaque payload.
\<close>

record raw_job =
  rj_url :: "string option"
  rj_career_page_id :: "string option"
  rj_company_name :: "string option"
  rj_raw_content :: "string option"
  rj_rest :: string

record job_posting =
  jp_id :: uuid
  career_page_id :: uuid
  external_id :: string
  title :: string
  location :: "string option"
  job_type :: "string option"
  experience_level :: "string option"
  description :: "string option"
  requirements :: "string option"
  url :: string
  raw_data :: raw_job
  normalized_at :: "datetime option"
  first_seen_at :: datetime
  last_seen_at :: datetime
  jp_is_active :: bool
  jp_created_at :: datetime

text \<open>
  The JSON column \<open>preferences\<close> is a dictionary from criterion name to a list of
  strings; it is kept as an association list read with \<open>dict.get(key, [])\<close>.
\<close>

type_synonym preferences = "(string \<times> string list) list"

record user =
  user_id :: uuid
  email :: string
  discord_webhook_url :: "string option"
  preferences :: preferences
  notification_channels :: "string list"
  user_is_active :: bool

definition pref_get :: "preferences \<Rightarrow> string \<Rightarrow> string list" where
  "pref_get prefs k = (case map_of prefs k of None \<Rightarrow> [] | Some v \<Rightarrow> v)"


section \<open>Matching service (app/services/matching\_service.py)\<close>

definition location_matches :: "string \<Rightarrow> string \<Rightarrow> bool" where
  "location_matches job_location preferred_location =
     (let job_location = strip (lower job_location);
          preferred_location = strip (lower preferred_location)
      in if job_location = preferred_location then True
         else if str_in ''remote'' preferred_location \<and> str_in ''remote'' job_location then True
         else if str_in preferred_location job_location \<or> str_in job_location preferred_location
           then True
         else False)"

definition check_user_match :: "user \<Rightarrow> job_posting \<Rightarrow> bool" where
  "check_user_match u job =
     (let prefs = preferences u in
      if prefs = [] then True
      else
        let preferred_locations = pref_get prefs ''locations'';
            preferred_job_types = pref_get prefs ''job_types'';
            preferred_experience_levels = pref_get prefs ''experience_levels'';
            preferred_company_ids = pref_get prefs ''company_ids''
        in
        if preferred_locations \<noteq> [] \<and>
           (case location job of None \<Rightarrow> True
            | Some l \<Rightarrow> l = [] \<or> \<not> list_ex (location_matches l) preferred_locations)
        then False
        else if preferred_job_types \<noteq> [] \<and>
           (case job_type job of None \<Rightarrow> True
            | Some t \<Rightarrow> t = [] \<or> t \<notin> set preferred_job_types)
        then False
        else if preferred_experience_levels \<noteq> [] \<and>
           (case experience_level job of None \<Rightarrow> True
            | Some e \<Rightarrow> e = [] \<or> e \<notin> set preferred_experience_levels)
        then False
        else if preferred_company_ids \<noteq> [] \<and>
           career_page_id job \<notin> set preferred_company_ids
        then False
        else True)"

definition find_matching_users :: "job_posting \<Rightarrow> user list \<Rightarrow> user list" where
  "find_matching_users job all_users = filter (\<lambda>u. check_user_match u job) all_users"


section \<open>LLM service (app/services/llm\_service.py)\<close>

text \<open>
  A value returned by \<open>json.loads\<close>. Numbers are kept as integers: the extractor only
  asks whether a value is truthy and whether it is a string, and a float behaves like
  an integer for both questions.
\<close>

datatype json =
    JNull
  | JBool bool
  | JNum int
  | JStr string
  | JArr "json list"
  | JObj "(string \<times> json) list"

datatype py_error = AttributeError | JSONDecodeError | ServiceError

text \<open>Python truthiness of a JSON value, and of \<open>dict.get(key)\<close> (a missing key is \<open>None\<close>).\<close>

fun truthy :: "json \<Rightarrow> bool" where
  "truthy JNull = False"
| "truthy (JBool b) = b"
| "truthy (JNum n) = (n \<noteq> 0)"
| "truthy (JStr s) = (s \<noteq> [])"
| "truthy (JArr xs) = (xs \<noteq> [])"
| "truthy (JObj kv) = (kv \<noteq> [])"

definition get_truthy :: "(string \<times> json) list \<Rightarrow> string \<Rightarrow> bool" where
  "get_truthy d k = (case map_of d k of None \<Rightarrow> False | Some v \<Rightarrow> truthy v)"

record normalized_job =
  nj_title :: string
  nj_location :: "string option"
  nj_job_type :: "string option"
  nj_experience_level :: "string option"
  nj_description :: "string option"
  nj_requirements :: "string option"
  nj_url :: string
  nj_career_page_id :: "string option"
  nj_company_name :: "string option"
  nj_raw_data :: raw_job

text \<open>
  The collaborators of the extractor: the chat call to the model (\<open>Inl\<close> when the
  call, or reading the content out of its answer, raises), \<open>json.loads\<close> (\<open>Inl\<close> when
  it raises) and the two fixed pieces of the prompt template.
\<close>

record llm_env =
  chat :: "string \<Rightarrow> py_error + string"
  loads :: "string \<Rightarrow> py_error + json"
  prompt_head :: string
  prompt_rules :: string

definition get_or :: "string option \<Rightarrow> string \<Rightarrow> string" where
  "get_or v d = (case v of None \<Rightarrow> d | Some s \<Rightarrow> s)"

definition build_normalization_prompt :: "llm_env \<Rightarrow> string \<Rightarrow> string \<Rightarrow> string" where
  "build_normalization_prompt env raw_content company_name =
     prompt_head env @ company_name @ prompt_rules env @ take 8000 raw_content @ [CHR 0x0A]"

text \<open>\<open>str.find\<close> and \<open>str.rfind\<close> for a one-character needle, and \<open>s[a:b]\<close> for \<open>0 \<le> a, b\<close>.\<close>

definition str_find :: "string \<Rightarrow> char \<Rightarrow> int" where
  "str_find s c = (if c \<in> set s then int (length (takeWhile (\<lambda>d. d \<noteq> c) s)) else - 1)"

definition str_rfind :: "string \<Rightarrow> char \<Rightarrow> int" where
  "str_rfind s c =
     (if c \<in> set s then int (length s) - 1 - int (length (takeWhile (\<lambda>d. d \<noteq> c) (rev s)))
      else - 1)"

definition slice :: "string \<Rightarrow> int \<Rightarrow> int \<Rightarrow> string" where
  "slice s a b = drop (nat a) (take (nat b) s)"

text \<open>\<open>job.get(key, "").strip()\<close>: raises when the stored value is not a string.\<close>

definition get_stripped :: "(string \<times> json) list \<Rightarrow> string \<Rightarrow> py_error + string" where
  "get_stripped job k =
     (case map_of job k of
        None \<Rightarrow> Inr (strip [])
      | Some (JStr s) \<Rightarrow> Inr (strip s)
      | Some _ \<Rightarrow> Inl AttributeError)"

definition or_none :: "string \<Rightarrow> string option" where
  "or_none s = (if s = [] then None else Some s)"

definition bind_err :: "py_error + 'a \<Rightarrow> ('a \<Rightarrow> py_error + 'b) \<Rightarrow> py_error + 'b" where
  "bind_err m f = (case m of Inl e \<Rightarrow> Inl e | Inr x \<Rightarrow> f x)"

text \<open>
  The body of the loop over the parsed array: \<open>Inr None\<close> is \<open>continue\<close>, \<open>Inr (Some n)\<close>
  is the dictionary appended, \<open>Inl\<close> an exception (calling \<open>get\<close> on an element that is
  not an object, or \<open>strip\<close> on a value that is not a string).
\<close>

definition normalize_element :: "raw_job \<Rightarrow> json \<Rightarrow> py_error + normalized_job option" where
  "normalize_element raw job =
     (case job of
        JObj d \<Rightarrow>
          if \<not> get_truthy d ''title'' then Inr None
          else
            bind_err (get_stripped d ''title'') (\<lambda>t.
            bind_err (get_stripped d ''location'') (\<lambda>l.
            bind_err (get_stripped d ''job_type'') (\<lambda>jt.
            bind_err (get_stripped d ''experience_level'') (\<lambda>lvl.
            bind_err (get_stripped d ''description'') (\<lambda>ds.
            bind_err (get_stripped d ''requirements'') (\<lambda>rq.
            bind_err (get_stripped d ''url'') (\<lambda>u.
              Inr (Some \<lparr>nj_title = t, nj_location = or_none l, nj_job_type = or_none jt,
                         nj_experience_level = or_none lvl, nj_description = or_none ds,
                         nj_requirements = or_none rq,
                         nj_url = (if u \<noteq> [] then u else get_or (rj_url raw) []),
                         nj_career_page_id = rj_career_page_id raw,
                         nj_company_name = rj_company_name raw,
                         nj_raw_data = raw\<rparr>))))))))
      | _ \<Rightarrow> Inl AttributeError)"

fun normalize_loop :: "raw_job \<Rightarrow> json list \<Rightarrow> normalized_job list \<Rightarrow> py_error + normalized_job list" where
  "normalize_loop raw [] normalized_jobs = Inr normalized_jobs"
| "normalize_loop raw (job # jobs) normalized_jobs =
     (case normalize_element raw job of
        Inl e \<Rightarrow> Inl e
      | Inr None \<Rightarrow> normalize_loop raw jobs normalized_jobs
      | Inr (Some n) \<Rightarrow> normalize_loop raw jobs (normalized_jobs @ [n]))"

text \<open>The span handed to \<open>json.loads\<close>: from the first \<open>[\<close> to the last \<open>]\<close>.\<close>

definition json_span :: "string \<Rightarrow> string" where
  "json_span llm_output =
     slice (strip llm_output) (str_find (strip llm_output) CHR ''['')
       (str_rfind (strip llm_output) CHR '']'' + 1)"

definition parse_llm_response :: "llm_env \<Rightarrow> string \<Rightarrow> raw_job \<Rightarrow> normalized_job list" where
  "parse_llm_response env llm_output raw =
     (let llm_output = strip llm_output;
          start_idx = str_find llm_output CHR ''['';
          end_idx = str_rfind llm_output CHR '']'' + 1
      in if start_idx = - 1 \<or> end_idx = 0 then []
         else
           case loads env (slice llm_output start_idx end_idx) of
             Inl e \<Rightarrow> []
           | Inr (JArr jobs_data) \<Rightarrow>
               (case normalize_loop raw jobs_data [] of Inl e \<Rightarrow> [] | Inr r \<Rightarrow> r)
           | Inr _ \<Rightarrow> [])"

definition normalize_job_data :: "llm_env \<Rightarrow> raw_job \<Rightarrow> normalized_job list" where
  "normalize_job_data env raw =
     (let raw_content = get_or (rj_raw_content raw) [];
          company_name = get_or (rj_company_name raw) []
      in if raw_content = [] then []
         else
           case chat env (build_normalization_prompt env raw_content company_name) of
             Inl e \<Rightarrow> []
           | Inr llm_output \<Rightarrow> parse_llm_response env llm_output raw)"


text \<open>An array element the loop skips: an object whose \<open>title\<close> is missing or falsy.\<close>

definition untitled :: "json \<Rightarrow> bool" where
  "untitled job = (case job of JObj d \<Rightarrow> \<not> get_truthy d ''title'' | _ \<Rightarrow> False)"


section \<open>Notification models (app/models/notification.py)\<close>

datatype notification_channel = EMAIL | DISCORD | DASHBOARD

datatype notification_status = PENDING | SENT | FAILED

text \<open>
  The columns the pipeline writes. The generated primary key and the creation time of
  a notification, and the priority and creation time of a queue entry, are never read
  by the pipeline and are left out.
\<close>

record notification =
  n_user_id :: uuid
  n_job_posting_id :: uuid
  channel :: notification_channel
  status :: notification_status
  sent_at :: "datetime option"
  error_message :: "string option"

record notification_queue =
  nq_id :: uuid
  nq_user_id :: uuid
  nq_job_posting_id :: uuid
  channels :: string


section \<open>Database session\<close>

text \<open>
  The four tables, and a session on them. A session sees and changes its working copy
  (\<open>db.add\<close>, \<open>db.delete\<close>, attribute assignment); \<open>db.commit()\<close> makes the working copy
  the stored one; \<open>db.close()\<close> drops whatever was not committed. Storage itself is
  taken not to fail. \<open>tick\<close> counts the calls made to the outside world (clock reads and
  delivery attempts), so that each call may have its own outcome.
\<close>

record tables =
  users :: "user list"
  job_postings :: "job_posting list"
  queue_entries :: "notification_queue list"
  notifications :: "notification list"

record session =
  stored :: tables
  working :: tables
  tick :: nat

text \<open>
  The outside world: the clock (\<open>datetime.utcnow()\<close>), the generator of primary keys, and
  the two transports. A transport answers \<open>None\<close> when the delivery went through and
  \<open>Some e\<close> when building or sending the message raised an exception with text \<open>e\<close>.
\<close>

record world =
  clock :: "nat \<Rightarrow> datetime"
  fresh_uuid :: "nat \<Rightarrow> uuid"
  smtp_send :: "nat \<Rightarrow> user \<Rightarrow> job_posting \<Rightarrow> string option"
  webhook_execute :: "nat \<Rightarrow> user \<Rightarrow> job_posting \<Rightarrow> string option"

definition SessionLocal :: "tables \<Rightarrow> nat \<Rightarrow> session" where
  "SessionLocal db t = \<lparr>stored = db, working = db, tick = t\<rparr>"

definition db_commit :: "session \<Rightarrow> session" where
  "db_commit s = s\<lparr>stored := working s\<rparr>"

definition db_close :: "session \<Rightarrow> tables" where
  "db_close s = stored s"

definition db_add_notification :: "notification \<Rightarrow> session \<Rightarrow> session" where
  "db_add_notification n s =
     s\<lparr>working := (working s)\<lparr>notifications := notifications (working s) @ [n]\<rparr>\<rparr>"

definition db_add_job :: "job_posting \<Rightarrow> session \<Rightarrow> session" where
  "db_add_job j s =
     s\<lparr>working := (working s)\<lparr>job_postings := job_postings (working s) @ [j]\<rparr>\<rparr>"

definition db_delete_entry :: "notification_queue \<Rightarrow> session \<Rightarrow> session" where
  "db_delete_entry e s =
     s\<lparr>working := (working s)\<lparr>queue_entries :=
          filter (\<lambda>x. nq_id x \<noteq> nq_id e) (queue_entries (working s))\<rparr>\<rparr>"


section \<open>Notification service (app/services/notification\_service.py)\<close>

definition send_email_notification :: "world \<Rightarrow> user \<Rightarrow> job_posting \<Rightarrow> session \<Rightarrow> session" where
  "send_email_notification w u job s =
     (case smtp_send w (tick s) u job of
        None \<Rightarrow>
          db_commit (db_add_notification
            \<lparr>n_user_id = user_id u, n_job_posting_id = jp_id job, channel = EMAIL,
             status = SENT, sent_at = Some (clock w (tick s)), error_message = None\<rparr>
            (s\<lparr>tick := tick s + 1\<rparr>))
      | Some e \<Rightarrow>
          db_commit (db_add_notification
            \<lparr>n_user_id = user_id u, n_job_posting_id = jp_id job, channel = EMAIL,
             status = FAILED, sent_at = None, error_message = Some e\<rparr>
            (s\<lparr>tick := tick s + 1\<rparr>)))"

definition send_discord_notification :: "world \<Rightarrow> user \<Rightarrow> job_posting \<Rightarrow> session \<Rightarrow> session" where
  "send_discord_notification w u job s =
     (if discord_webhook_url u = None \<or> discord_webhook_url u = Some [] then s
      else
        case webhook_execute w (tick s) u job of
          None \<Rightarrow>
            db_commit (db_add_notification
              \<lparr>n_user_id = user_id u, n_job_posting_id = jp_id job, channel = DISCORD,
               status = SENT, sent_at = Some (clock w (tick s)), error_message = None\<rparr>
              (s\<lparr>tick := tick s + 1\<rparr>))
        | Some e \<Rightarrow>
            db_commit (db_add_notification
              \<lparr>n_user_id = user_id u, n_job_posting_id = jp_id job, channel = DISCORD,
               status = FAILED, sent_at = None, error_message = Some e\<rparr>
              (s\<lparr>tick := tick s + 1\<rparr>)))"

definition send_dashboard_notification :: "world \<Rightarrow> user \<Rightarrow> job_posting \<Rightarrow> session \<Rightarrow> session" where
  "send_dashboard_notification w u job s =
     db_commit (db_add_notification
       \<lparr>n_user_id = user_id u, n_job_posting_id = jp_id job, channel = DASHBOARD,
        status = SENT, sent_at = Some (clock w (tick s)), error_message = None\<rparr>
       (s\<lparr>tick := tick s + 1\<rparr>))"

text \<open>\<open>entry.channels.split(",")\<close>.\<close>

fun split_comma :: "string \<Rightarrow> string list" where
  "split_comma [] = [] # []"
| "split_comma (c # s) =
     (if c = CHR '','' then [] # split_comma s
      else case split_comma s of [] \<Rightarrow> [c] # [] | p # ps \<Rightarrow> (c # p) # ps)"

text \<open>The body of the loop over the channels of one entry.\<close>

definition send_channel :: "world \<Rightarrow> user \<Rightarrow> job_posting \<Rightarrow> string \<Rightarrow> session \<Rightarrow> session" where
  "send_channel w u job ch s =
     (let ch = strip ch in
      if ch = ''email'' then send_email_notification w u job s
      else if ch = ''discord'' then send_discord_notification w u job s
      else if ch = ''dashboard'' then send_dashboard_notification w u job s
      else s)"

text \<open>
  The body of the loop over the queue entries. Each send function catches what its
  transport raises and storage does not fail, so nothing reaches the \<open>except\<close> branch
  of the loop, which would log and go on to the next entry.
\<close>

definition process_entry :: "world \<Rightarrow> notification_queue \<Rightarrow> session \<Rightarrow> session" where
  "process_entry w entry s =
     (case (List.find (\<lambda>u. user_id u = nq_user_id entry) (users (working s)),
            List.find (\<lambda>j. jp_id j = nq_job_posting_id entry) (job_postings (working s))) of
        (Some u, Some job) \<Rightarrow>
          db_commit (db_delete_entry entry
            (fold (send_channel w u job) (split_comma (channels entry)) s))
      | _ \<Rightarrow> db_delete_entry entry s)"

definition process_notification_queue :: "world \<Rightarrow> session \<Rightarrow> session" where
  "process_notification_queue w s =
     (let entries = queue_entries (working s) in
      if entries = [] then s else fold (process_entry w) entries s)"

text \<open>\<open>NotificationWorker.run_notification_pipeline\<close>: open a session, drain, close.\<close>

definition run_notification_pipeline :: "world \<Rightarrow> tables \<Rightarrow> nat \<Rightarrow> tables" where
  "run_notification_pipeline w db t = db_close (process_notification_queue w (SessionLocal db t))"


section \<open>Scrape worker (app/workers/scrape\_worker.py)\<close>

text \<open>Assigning \<open>last_seen_at\<close> and \<open>is_active\<close> on the row the query returned first.\<close>

fun touch_first :: "string \<Rightarrow> datetime \<Rightarrow> job_posting list \<Rightarrow> job_posting list" where
  "touch_first key now [] = []"
| "touch_first key now (j # js) =
     (if external_id j = key then j\<lparr>last_seen_at := now, jp_is_active := True\<rparr> # js
      else j # touch_first key now js)"

text \<open>The \<open>JobPosting(...)\<close> row built for a candidate not seen before.\<close>

definition new_job_posting :: "world \<Rightarrow> normalized_job \<Rightarrow> uuid \<Rightarrow> string \<Rightarrow> nat \<Rightarrow> job_posting" where
  "new_job_posting w normalized_job page_id key t =
     \<lparr>jp_id = fresh_uuid w t, career_page_id = page_id, external_id = key,
      title = nj_title normalized_job, location = nj_location normalized_job,
      job_type = nj_job_type normalized_job,
      experience_level = nj_experience_level normalized_job,
      description = nj_description normalized_job,
      requirements = nj_requirements normalized_job, url = nj_url normalized_job,
      raw_data = nj_raw_data normalized_job,
      normalized_at = Some (clock w (t + 1)),
      first_seen_at = clock w (t + 2), last_seen_at = clock w (t + 3),
      jp_is_active = True, jp_created_at = clock w (t + 4)\<rparr>"

definition save_new_job ::
  "world \<Rightarrow> normalized_job \<Rightarrow> uuid \<Rightarrow> session \<Rightarrow> job_posting option \<times> session" where
  "save_new_job w normalized_job page_id s =
     (let key = generate_job_external_id page_id (nj_url normalized_job) (nj_title normalized_job)
      in case List.find (\<lambda>j. external_id j = key) (job_postings (working s)) of
           Some existing_job \<Rightarrow>
             (None,
              db_commit (s\<lparr>working := (working s)\<lparr>job_postings :=
                              touch_first key (clock w (tick s)) (job_postings (working s))\<rparr>,
                           tick := tick s + 1\<rparr>))
         | None \<Rightarrow>
             (let new_job = new_job_posting w normalized_job page_id key (tick s)
              in (Some new_job, db_commit (db_add_job new_job (s\<lparr>tick := tick s + 5\<rparr>)))))"


section \<open>Concrete values used in the instances below\<close>

definition a_raw_job :: raw_job where
  "a_raw_job =
     \<lparr>rj_url = Some ''https://example.com/careers'', rj_career_page_id = Some ''cp1'',
      rj_company_name = Some ''Example'', rj_raw_content = Some ''We are hiring'',
      rj_rest = ''metadata''\<rparr>"

definition a_posting :: "string option \<Rightarrow> string option \<Rightarrow> string option \<Rightarrow> job_posting" where
  "a_posting loc jt lvl =
     \<lparr>jp_id = ''p1'', career_page_id = ''cp1'', external_id = ''k1'', title = ''Engineer'',
      location = loc, job_type = jt, experience_level = lvl,
      description = None, requirements = None, url = ''https://example.com/jobs/1'',
      raw_data = a_raw_job, normalized_at = Some 0, first_seen_at = 0, last_seen_at = 0,
      jp_is_active = True, jp_created_at = 0\<rparr>"

definition a_subscriber :: "preferences \<Rightarrow> user" where
  "a_subscriber prefs =
     \<lparr>user_id = ''u1'', email = ''u1@example.com'',
      discord_webhook_url = Some ''https://discord.example/hook'',
      preferences = prefs, notification_channels = [''email''], user_is_active = True\<rparr>"




text \<open>A stand-in for \<open>json.loads\<close> that knows the listed texts and rejects every other.\<close>

definition table_loads :: "(string \<times> json) list \<Rightarrow> string \<Rightarrow> py_error + json" where
  "table_loads tbl s = (case map_of tbl s of None \<Rightarrow> Inl JSONDecodeError | Some v \<Rightarrow> Inr v)"

definition an_env :: "(string \<times> json) list \<Rightarrow> py_error + string \<Rightarrow> llm_env" where
  "an_env tbl reply =
     \<lparr>chat = (\<lambda>prompt. reply), loads = table_loads tbl,
      prompt_head = ''Extract ALL job postings for '', prompt_rules = '' Career Page Content: ''\<rparr>"


definition two_postings :: string where
  \<open>two_postings = ''[{"title":"A"},{"title":"B","location":null}]''\<close>


definition no_jobs_response :: string where
  "no_jobs_response = ''no jobs''"

definition broken_response :: string where
  \<open>broken_response = ''[{"title": ]''\<close>

definition number_response :: string where
  "number_response = ''[7]''"

definition untitled_response :: string where
  \<open>untitled_response = ''[{"location":"NY"},{"title":"X"}]''\<close>


definition a_world :: world where
  "a_world =
     \<lparr>clock = (\<lambda>t. 1000 + int t), fresh_uuid = (\<lambda>t. ''id-new''),
      smtp_send = (\<lambda>t u job. None),
      webhook_execute = (\<lambda>t u job. Some ''HTTP 500'')\<rparr>"

definition an_entry :: "uuid \<Rightarrow> uuid \<Rightarrow> string \<Rightarrow> notification_queue" where
  "an_entry qid uid chs =
     \<lparr>nq_id = qid, nq_user_id = uid, nq_job_posting_id = ''p1'', channels = chs\<rparr>"

definition a_db :: "notification_queue list \<Rightarrow> tables" where
  "a_db q =
     \<lparr>users = [a_subscriber []], job_postings = [a_posting None None None],
      queue_entries = q, notifications = []\<rparr>"

definition a_candidate :: "string option \<Rightarrow> normalized_job" where
  "a_candidate loc =
     \<lparr>nj_title = ''Engineer'', nj_location = loc, nj_job_type = Some ''Full-time'',
      nj_experience_level = None, nj_description = None, nj_requirements = None,
      nj_url = ''https://example.com/jobs/1'', nj_career_page_id = Some ''cp1'',
      nj_company_name = Some ''Example'', nj_raw_data = a_raw_job\<rparr>"

definition an_empty_db :: tables where
  "an_empty_db = \<lparr>users = [], job_postings = [], queue_entries = [], notifications = []\<rparr>"


section \<open>Properties of the string primitives\<close>

lemma startswith_iff: "startswith s p \<longleftrightarrow> (\<exists>b. s = p @ b)"
  by (induction s p rule: startswith.induct) auto

lemma str_in_iff: "str_in p s \<longleftrightarrow> (\<exists>a b. s = a @ p @ b)"
proof (induction s)
  case Nil
  then show ?case by auto
next
  case (Cons d s)
  show ?case
  proof
    assume "str_in p (d # s)"
    then consider "startswith (d # s) p" | "str_in p s" by auto
    then show "\<exists>a b. d # s = a @ p @ b"
    proof cases
      case 1
      then obtain b where "d # s = p @ b" by (auto simp: startswith_iff)
      then have "d # s = [] @ p @ b" by simp
      then show ?thesis by blast
    next
      case 2
      then obtain a b where "s = a @ p @ b" using Cons.IH by blast
      then have "d # s = (d # a) @ p @ b" by simp
      then show ?thesis by blast
    qed
  next
    assume "\<exists>a b. d # s = a @ p @ b"
    then obtain a b where ab: "d # s = a @ p @ b" by blast
    show "str_in p (d # s)"
    proof (cases a)
      case Nil
      with ab have "startswith (d # s) p" by (auto simp: startswith_iff)
      then show ?thesis by simp
    next
      case (Cons a0 a')
      with ab have "s = a' @ p @ b" by simp
      then have "str_in p s" using Cons.IH by blast
      then show ?thesis by simp
    qed
  qed
qed


section \<open>Matcher\<close>

lemma lower_char_upper_char: "lower_char (upper_char c) = lower_char c"
proof (cases "is_lower c")
  case True
  then have n: "\<not> is_upper c" by (auto simp: is_lower_def is_upper_def)
  from True have "is_upper (char_of ((of_char c :: nat) - 32))"
    by (auto simp: is_lower_def is_upper_def)
  moreover from True have "(of_char c :: nat) - 32 + 32 = of_char c"
    by (auto simp: is_lower_def)
  moreover from True have "(of_char c :: nat) - 32 < 256"
    by (auto simp: is_lower_def)
  ultimately show ?thesis using True n
    by (simp add: lower_char_def upper_char_def)
next
  case False
  then show ?thesis by (simp add: upper_char_def)
qed

lemma lower_char_idem: "lower_char (lower_char c) = lower_char c"
proof (cases "is_upper c")
  case True
  then have "\<not> is_upper (char_of ((of_char c :: nat) + 32))"
    by (auto simp: is_upper_def)
  with True show ?thesis by (simp add: lower_char_def)
next
  case False
  then show ?thesis by (simp add: lower_char_def)
qed

lemma lower_upper: "lower (upper s) = lower s"
  by (simp add: lower_def upper_def lower_char_upper_char)

lemma lower_lower: "lower (lower s) = lower s"
  by (simp add: lower_def lower_char_idem)

lemma isspace_lower_char: "isspace c \<Longrightarrow> lower_char c = c"
  by (auto simp: isspace_def lower_char_def is_upper_def)

lemma lower_spaces: "\<forall>c \<in> set ws. isspace c \<Longrightarrow> lower ws = ws"
  by (simp add: lower_def isspace_lower_char map_idI)

lemma lower_append: "lower (a @ b) = lower a @ lower b"
  by (simp add: lower_def)

lemma lstrip_spaces: "\<forall>c \<in> set ws. isspace c \<Longrightarrow> lstrip (ws @ s) = lstrip s"
  by (simp add: lstrip_def dropWhile_append2)

lemma rstrip_spaces: "\<forall>c \<in> set ws. isspace c \<Longrightarrow> rstrip (s @ ws) = rstrip s"
  using dropWhile_append2 [of "rev ws" isspace "rev s"] by (simp add: rstrip_def)

lemma lstrip_append_spaces:
  assumes "\<forall>c \<in> set ws. isspace c"
  shows "rstrip (lstrip (s @ ws)) = rstrip (lstrip s)"
proof (cases "\<forall>c \<in> set s. isspace c")
  case True
  with assms have "lstrip (s @ ws) = []" "lstrip s = []"
    by (auto simp: lstrip_def)
  then show ?thesis by simp
next
  case False
  then obtain x where "x \<in> set s" "\<not> isspace x" by blast
  then have "lstrip (s @ ws) = lstrip s @ ws"
    by (simp add: lstrip_def dropWhile_append1)
  with assms show ?thesis by (simp add: rstrip_spaces)
qed

lemma strip_spaces:
  assumes "\<forall>c \<in> set ws1. isspace c" "\<forall>c \<in> set ws2. isspace c"
  shows "strip (ws1 @ s @ ws2) = strip s"
  using assms by (simp add: strip_def lstrip_spaces lstrip_append_spaces)

lemma strip_lower_spaces:
  assumes "\<forall>c \<in> set ws1. isspace c" "\<forall>c \<in> set ws2. isspace c"
  shows "strip (lower (ws1 @ s @ ws2)) = strip (lower s)"
  using assms by (simp add: lower_append lower_spaces strip_spaces)

lemma lower_example: "lower ''San Francisco, CA'' = ''san francisco, ca''"
  by code_simp

lemma lower_latin1_example: "lower [CHR 0xD6, CHR ''R'', CHR 0xD7] = [CHR 0xF6, CHR ''r'', CHR 0xD7]"
  by code_simp

lemma strip_example: "strip [CHR 0xA0, CHR '' '', CHR ''a'', CHR '' '', CHR ''b'', CHR 0x0A, CHR 0x85] = ''a b''"
  by (simp add: strip_def lstrip_def rstrip_def isspace_def)


lemma location_matches_examples:
  "location_matches ''BERLIN'' ''berlin''"
  "location_matches '' Berlin'' ''Berlin ''"
  "location_matches ''Remote - US'' ''Remote''"
  "\<not> location_matches ''Berlin'' ''Remote''"
  "location_matches ''San Francisco'' ''San Francisco, CA''"
  "location_matches [CHR 0xD6, CHR ''R'', CHR ''E'', CHR ''B'', CHR ''R'', CHR ''O'']
      [CHR 0xF6, CHR ''r'', CHR ''e'', CHR ''b'', CHR ''r'', CHR ''o'']"
  "location_matches (CHR 0xA0 # ''Berlin'') (''Berlin'' @ [CHR 0x85])"
  by code_simp+

lemma location_matches_pre:
  "location_matches a b \<longleftrightarrow>
     (strip (lower a) = strip (lower b)
      \<or> (str_in ''remote'' (strip (lower b)) \<and> str_in ''remote'' (strip (lower a)))
      \<or> str_in (strip (lower b)) (strip (lower a))
      \<or> str_in (strip (lower a)) (strip (lower b)))"
  by (simp add: location_matches_def Let_def)

lemma location_matches_cong:
  "strip (lower a) = strip (lower a') \<Longrightarrow> strip (lower b) = strip (lower b') \<Longrightarrow>
     location_matches a b = location_matches a' b'"
  by (simp add: location_matches_pre)

text \<open>
  Claim C4. \<open>_location_matches\<close> answers true exactly when the two strings, lower-cased
  and trimmed, are equal, or both contain \<open>remote\<close>, or one of them occurs inside the
  other, and false in every other case. The comparison ignores case (replacing either
  string by its lower-case form, or by its upper-case form when that form is exact,
  does not change the answer) and ignores surrounding whitespace (padding either string
  with whitespace on either side does not change the answer).
\<close>

theorem location_matches_iff:
  "(location_matches posted preferred \<longleftrightarrow>
     (strip (lower posted) = strip (lower preferred)
      \<or> ((\<exists>a b. strip (lower preferred) = a @ ''remote'' @ b)
           \<and> (\<exists>a b. strip (lower posted) = a @ ''remote'' @ b))
      \<or> (\<exists>a b. strip (lower posted) = a @ strip (lower preferred) @ b)
      \<or> (\<exists>a b. strip (lower preferred) = a @ strip (lower posted) @ b)))
   \<and> ((\<forall>c \<in> set ws1 \<union> set ws2 \<union> set ws3 \<union> set ws4. isspace c) \<longrightarrow>
         location_matches (ws1 @ posted @ ws2) (ws3 @ preferred @ ws4)
           = location_matches posted preferred)
   \<and> (upper_exact posted \<and> upper_exact preferred \<longrightarrow>
         location_matches (upper posted) preferred = location_matches posted preferred
         \<and> location_matches posted (upper preferred) = location_matches posted preferred)
   \<and> location_matches (lower posted) preferred = location_matches posted preferred
   \<and> location_matches posted (lower preferred) = location_matches posted preferred"
proof -
  have c1: "location_matches posted preferred \<longleftrightarrow>
     (strip (lower posted) = strip (lower preferred)
      \<or> ((\<exists>a b. strip (lower preferred) = a @ ''remote'' @ b)
           \<and> (\<exists>a b. strip (lower posted) = a @ ''remote'' @ b))
      \<or> (\<exists>a b. strip (lower posted) = a @ strip (lower preferred) @ b)
      \<or> (\<exists>a b. strip (lower preferred) = a @ strip (lower posted) @ b))"
    unfolding location_matches_pre str_in_iff by blast
  have c2: "(\<forall>c \<in> set ws1 \<union> set ws2 \<union> set ws3 \<union> set ws4. isspace c) \<longrightarrow>
         location_matches (ws1 @ posted @ ws2) (ws3 @ preferred @ ws4)
           = location_matches posted preferred"
  proof
    assume w: "\<forall>c \<in> set ws1 \<union> set ws2 \<union> set ws3 \<union> set ws4. isspace c"
    then have "strip (lower (ws1 @ posted @ ws2)) = strip (lower posted)"
      by (intro strip_lower_spaces) auto
    moreover from w have "strip (lower (ws3 @ preferred @ ws4)) = strip (lower preferred)"
      by (intro strip_lower_spaces) auto
    ultimately show "location_matches (ws1 @ posted @ ws2) (ws3 @ preferred @ ws4)
           = location_matches posted preferred"
      by (rule location_matches_cong)
  qed
  have c3: "location_matches (upper posted) preferred = location_matches posted preferred"
    by (rule location_matches_cong) (simp_all add: lower_upper)
  have c4: "location_matches posted (upper preferred) = location_matches posted preferred"
    by (rule location_matches_cong) (simp_all add: lower_upper)
  have c5: "location_matches (lower posted) preferred = location_matches posted preferred"
    by (rule location_matches_cong) (simp_all add: lower_lower)
  have c6: "location_matches posted (lower preferred) = location_matches posted preferred"
    by (rule location_matches_cong) (simp_all add: lower_lower)
  from c1 c2 c3 c4 c5 c6 show ?thesis by blast
qed

theorem location_matches_iff_witness:
  "location_matches '' Berlin'' ''Berlin ''
   \<and> location_matches ''BERLIN'' ''berlin''
   \<and> location_matches ''Remote - US'' ''Remote''
   \<and> location_matches ''San Francisco'' ''San Francisco, CA''
   \<and> \<not> location_matches ''Berlin'' ''Remote''"
proof -
  have sp: "\<forall>c \<in> set '' '' \<union> set [] \<union> set [] \<union> set '' ''. isspace c"
    by (simp add: isspace_def)
  have ue: "upper_exact ''berlin'' \<and> upper_exact ''berlin''"
    by (simp add: upper_exact_def)
  have up: "upper ''berlin'' = ''BERLIN''" by code_simp
  have lo: "lower ''Berlin'' = ''berlin''" "lower ''Remote'' = ''remote''"
    "lower ''Remote - US'' = ''remote - us''" "lower ''San Francisco'' = ''san francisco''"
    "lower ''San Francisco, CA'' = ''san francisco, ca''"
    by code_simp+
  have st: "strip ''berlin'' = ''berlin''" "strip ''remote'' = ''remote''"
    "strip ''remote - us'' = ''remote - us''" "strip ''san francisco'' = ''san francisco''"
    "strip ''san francisco, ca'' = ''san francisco, ca''"
    by (simp_all add: strip_def lstrip_def rstrip_def isspace_def)
  have w1: "location_matches '' Berlin'' ''Berlin ''"
    using location_matches_iff [of "''Berlin''" "''Berlin''" "'' ''" "[]" "[]" "'' ''"] sp
    by simp
  have w2: "location_matches ''BERLIN'' ''berlin''"
    using location_matches_iff [of "''berlin''" "''berlin''"] ue up by simp
  have w4: "location_matches ''Remote - US'' ''Remote''"
    using location_matches_iff [of "''Remote - US''" "''Remote''"] lo st
    by simp (metis append_Nil append_Nil2)
  have w5: "location_matches ''San Francisco'' ''San Francisco, CA''"
    using location_matches_iff [of "''San Francisco''" "''San Francisco, CA''"] lo st
    by simp (metis append_Nil)
  have n1: "\<not> (\<exists>a b. ''berlin'' = a @ ''remote'' @ b)"
    unfolding str_in_iff [symmetric] by simp
  have n2: "\<not> (\<exists>a b. ''remote'' = a @ ''berlin'' @ b)"
    unfolding str_in_iff [symmetric] by simp
  have w6: "\<not> location_matches ''Berlin'' ''Remote''"
    using location_matches_iff [of "''Berlin''" "''Remote''"] lo st n1 n2
    by simp
  from w1 w2 w4 w5 w6 show ?thesis by blast
qed

text \<open>
  Claim C3. A subscriber whose preference filter is empty matches every posting. On each
  of the dimensions \<open>locations\<close>, \<open>job_types\<close> and \<open>experience_levels\<close>, a subscriber who
  lists at least one allowed value does not match a posting whose value on that
  dimension is null; and a posting whose job type is not literally one of the allowed
  job types does not match (so \<open>{job_types: [Contract]}\<close> rejects \<open>Full-time\<close>, and
  \<open>{locations: [Remote]}\<close> rejects a posting without location).
\<close>

theorem check_user_match_fails_closed:
  "(preferences u = [] \<longrightarrow> check_user_match u job)
   \<and> (pref_get (preferences u) ''locations'' \<noteq> [] \<and> location job = None
        \<longrightarrow> \<not> check_user_match u job)
   \<and> (pref_get (preferences u) ''job_types'' \<noteq> [] \<and> job_type job = None
        \<longrightarrow> \<not> check_user_match u job)
   \<and> (pref_get (preferences u) ''experience_levels'' \<noteq> [] \<and> experience_level job = None
        \<longrightarrow> \<not> check_user_match u job)
   \<and> (pref_get (preferences u) ''job_types'' \<noteq> [] \<and> job_type job = Some t
        \<and> t \<notin> set (pref_get (preferences u) ''job_types'')
        \<longrightarrow> \<not> check_user_match u job)"
proof -
  have nonempty: "preferences u \<noteq> []" if "pref_get (preferences u) k \<noteq> []" for k
    using that by (auto simp: pref_get_def)
  have c1: "preferences u = [] \<longrightarrow> check_user_match u job"
    by (simp add: check_user_match_def)
  have c2: "pref_get (preferences u) ''locations'' \<noteq> [] \<and> location job = None
        \<longrightarrow> \<not> check_user_match u job"
    using nonempty [of "''locations''"] by (simp add: check_user_match_def Let_def)
  have c3: "pref_get (preferences u) ''job_types'' \<noteq> [] \<and> job_type job = None
        \<longrightarrow> \<not> check_user_match u job"
    using nonempty [of "''job_types''"] by (simp add: check_user_match_def Let_def)
  have c4: "pref_get (preferences u) ''experience_levels'' \<noteq> [] \<and> experience_level job = None
        \<longrightarrow> \<not> check_user_match u job"
    using nonempty [of "''experience_levels''"] by (simp add: check_user_match_def Let_def)
  have c5: "pref_get (preferences u) ''job_types'' \<noteq> [] \<and> job_type job = Some t
        \<and> t \<notin> set (pref_get (preferences u) ''job_types'')
        \<longrightarrow> \<not> check_user_match u job"
    using nonempty [of "''job_types''"]
    by (simp add: check_user_match_def Let_def)
  from c1 c2 c3 c4 c5 show ?thesis by blast
qed

theorem check_user_match_fails_closed_witness:
  "check_user_match (a_subscriber []) (a_posting None None None)
   \<and> \<not> check_user_match (a_subscriber [(''locations'', [''Remote''])])
          (a_posting None (Some ''Full-time'') (Some ''Senior''))
   \<and> \<not> check_user_match (a_subscriber [(''job_types'', [''Contract''])])
          (a_posting (Some ''Berlin'') None (Some ''Senior''))
   \<and> \<not> check_user_match (a_subscriber [(''experience_levels'', [''Senior''])])
          (a_posting (Some ''Berlin'') (Some ''Full-time'') None)
   \<and> \<not> check_user_match (a_subscriber [(''job_types'', [''Contract''])])
          (a_posting (Some ''Berlin'') (Some ''Full-time'') (Some ''Senior''))"
  using
    check_user_match_fails_closed [of "a_subscriber []" "a_posting None None None" "''x''"]
    check_user_match_fails_closed [of "a_subscriber [(''locations'', [''Remote''])]"
      "a_posting None (Some ''Full-time'') (Some ''Senior'')" "''x''"]
    check_user_match_fails_closed [of "a_subscriber [(''job_types'', [''Contract''])]"
      "a_posting (Some ''Berlin'') None (Some ''Senior'')" "''x''"]
    check_user_match_fails_closed [of "a_subscriber [(''experience_levels'', [''Senior''])]"
      "a_posting (Some ''Berlin'') (Some ''Full-time'') None" "''x''"]
    check_user_match_fails_closed [of "a_subscriber [(''job_types'', [''Contract''])]"
      "a_posting (Some ''Berlin'') (Some ''Full-time'') (Some ''Senior'')" "''Full-time''"]
  by (simp add: a_subscriber_def a_posting_def pref_get_def)


section \<open>Extractor\<close>

lemma bind_err_Inr: "bind_err m f = Inr y \<longleftrightarrow> (\<exists>x. m = Inr x \<and> f x = Inr y)"
  by (cases m) (simp_all add: bind_err_def)

lemma normalize_element_Some:
  "normalize_element raw job = Inr (Some n) \<longleftrightarrow>
     (\<exists>d t l jt lvl ds rq u. job = JObj d \<and> get_truthy d ''title''
        \<and> get_stripped d ''title'' = Inr t \<and> get_stripped d ''location'' = Inr l
        \<and> get_stripped d ''job_type'' = Inr jt \<and> get_stripped d ''experience_level'' = Inr lvl
        \<and> get_stripped d ''description'' = Inr ds \<and> get_stripped d ''requirements'' = Inr rq
        \<and> get_stripped d ''url'' = Inr u
        \<and> n = \<lparr>nj_title = t, nj_location = or_none l, nj_job_type = or_none jt,
                 nj_experience_level = or_none lvl, nj_description = or_none ds,
                 nj_requirements = or_none rq,
                 nj_url = (if u \<noteq> [] then u else get_or (rj_url raw) []),
                 nj_career_page_id = rj_career_page_id raw,
                 nj_company_name = rj_company_name raw,
                 nj_raw_data = raw\<rparr>)"
proof (cases job)
  case (JObj d)
  show ?thesis
  proof (cases "get_truthy d ''title''")
    case True
    with JObj show ?thesis
      by (simp add: normalize_element_def bind_err_Inr) blast
  next
    case False
    with JObj show ?thesis by (simp add: normalize_element_def)
  qed
qed (simp_all add: normalize_element_def)


lemma normalize_element_untitled: "untitled job \<Longrightarrow> normalize_element raw job = Inr None"
  by (cases job) (simp_all add: untitled_def normalize_element_def)

lemma normalize_element_titled: "normalize_element raw job = Inr (Some n) \<Longrightarrow> \<not> untitled job"
  unfolding normalize_element_Some by (auto simp: untitled_def)


lemma normalize_element_titled_not_None:
  "get_truthy d ''title'' \<Longrightarrow> normalize_element raw (JObj d) \<noteq> Inr None"
  by (simp add: normalize_element_def bind_err_Inr)

lemma get_stripped_not_string:
  "map_of d k = Some v \<Longrightarrow> \<forall>s. v \<noteq> JStr s \<Longrightarrow> get_stripped d k = Inl AttributeError"
  by (cases v) (simp_all add: get_stripped_def)

lemma normalize_element_not_string:
  assumes t: "get_truthy d ''title''"
    and k: "k \<in> {''location'', ''job_type'', ''experience_level'', ''description'',
               ''requirements'', ''url''}"
    and v: "map_of d k = Some v" "\<forall>s. v \<noteq> JStr s"
  shows "\<exists>e. normalize_element raw (JObj d) = Inl e"
proof (cases "normalize_element raw (JObj d)")
  case (Inl e)
  then show ?thesis by blast
next
  case (Inr r)
  have bad: "get_stripped d k = Inl AttributeError"
    using v by (rule get_stripped_not_string)
  show ?thesis
  proof (cases r)
    case None
    with Inr t show ?thesis using normalize_element_titled_not_None by blast
  next
    case (Some n)
    with Inr have "normalize_element raw (JObj d) = Inr (Some n)" by simp
    then have "\<exists>x. get_stripped d k = Inr x"
      unfolding normalize_element_Some using k by auto
    with bad show ?thesis by simp
  qed
qed

lemma normalize_loop_error:
  "job \<in> set jobs \<Longrightarrow> normalize_element raw job = Inl e \<Longrightarrow>
     \<exists>e'. normalize_loop raw jobs acc = Inl e'"
proof (induction jobs arbitrary: acc)
  case Nil
  then show ?case by simp
next
  case (Cons j jobs)
  show ?case
  proof (cases "normalize_element raw j")
    case (Inl e0)
    then show ?thesis by simp
  next
    case (Inr r)
    with Cons.prems have "job \<in> set jobs" by auto
    with Cons.IH Cons.prems(2) have "\<And>acc. \<exists>e'. normalize_loop raw jobs acc = Inl e'" by blast
    with Inr show ?thesis by (cases r) simp_all
  qed
qed

lemma normalize_loop_skips_untitled:
  "normalize_loop raw (filter (\<lambda>j. \<not> untitled j) jobs) acc = normalize_loop raw jobs acc"
proof (induction jobs arbitrary: acc)
  case Nil
  then show ?case by simp
next
  case (Cons j jobs)
  show ?case
  proof (cases "untitled j")
    case True
    with Cons show ?thesis by (simp add: normalize_element_untitled)
  next
    case False
    with Cons show ?thesis by (simp split: sum.splits option.splits)
  qed
qed

lemma normalize_loop_length:
  "normalize_loop raw jobs acc = Inr r \<Longrightarrow>
     length r \<le> length acc + length (filter (\<lambda>j. \<not> untitled j) jobs)"
proof (induction jobs arbitrary: acc)
  case Nil
  then show ?case by simp
next
  case (Cons j jobs)
  show ?case
  proof (cases "normalize_element raw j")
    case (Inl e)
    with Cons.prems show ?thesis by simp
  next
    case (Inr o1)
    show ?thesis
    proof (cases o1)
      case None
      with Inr Cons.prems have "normalize_loop raw jobs acc = Inr r" by simp
      from Cons.IH [OF this] show ?thesis by simp
    next
      case (Some n)
      with Inr Cons.prems have "normalize_loop raw jobs (acc @ [n]) = Inr r" by simp
      from Cons.IH [OF this] Some Inr normalize_element_titled [of raw j n]
      show ?thesis by simp
    qed
  qed
qed


lemma parse_llm_response_span:
  "parse_llm_response env out raw =
     (if str_find (strip out) CHR ''['' = - 1 \<or> str_rfind (strip out) CHR '']'' + 1 = 0 then []
      else case loads env (json_span out) of
             Inl e \<Rightarrow> []
           | Inr (JArr jobs_data) \<Rightarrow>
               (case normalize_loop raw jobs_data [] of Inl e \<Rightarrow> [] | Inr r \<Rightarrow> r)
           | Inr _ \<Rightarrow> [])"
  by (simp add: parse_llm_response_def json_span_def Let_def)

lemma str_find_absent: "c \<notin> set s \<Longrightarrow> str_find s c = - 1"
  by (simp add: str_find_def)

lemma str_rfind_absent: "c \<notin> set s \<Longrightarrow> str_rfind s c + 1 = 0"
  by (simp add: str_rfind_def)

text \<open>
  Claim C9. When the parsed array holds an object with a truthy title that carries, under
  one of the keys \<open>location\<close>, \<open>job_type\<close>, \<open>experience_level\<close>, \<open>description\<close>,
  \<open>requirements\<close> or \<open>url\<close>, a value that is not a string (an explicit null included),
  stripping that value raises, the catch-all handler answers the empty list, and so
  the whole unit yields no candidate, whatever the other elements are.
\<close>

theorem null_field_discards_unit:
  assumes "loads env (json_span out) = Inr (JArr jobs)"
    and "JObj d \<in> set jobs"
    and "get_truthy d ''title''"
    and "k \<in> {''location'', ''job_type'', ''experience_level'', ''description'',
               ''requirements'', ''url''}"
    and "map_of d k = Some v" and "\<forall>s. v \<noteq> JStr s"
  shows "parse_llm_response env out raw = []
     \<and> (chat env (build_normalization_prompt env (get_or (rj_raw_content raw) [])
            (get_or (rj_company_name raw) [])) = Inr out
         \<longrightarrow> normalize_job_data env raw = [])"
proof -
  obtain e where "normalize_element raw (JObj d) = Inl e"
    using normalize_element_not_string [OF assms(3-6)] by blast
  with assms(2) obtain e' where "normalize_loop raw jobs [] = Inl e'"
    using normalize_loop_error by blast
  with assms(1) have p: "parse_llm_response env out raw = []"
    by (simp add: parse_llm_response_span)
  then show ?thesis
    by (simp add: normalize_job_data_def Let_def)
qed

theorem null_field_discards_unit_witness:
  "parse_llm_response
     (an_env [(two_postings,
        JArr [JObj [(''title'', JStr ''A'')],
              JObj [(''title'', JStr ''B''), (''location'', JNull)]])] (Inr two_postings))
     two_postings a_raw_job = []
   \<and> normalize_job_data
     (an_env [(two_postings,
        JArr [JObj [(''title'', JStr ''A'')],
              JObj [(''title'', JStr ''B''), (''location'', JNull)]])] (Inr two_postings))
     a_raw_job = []"
proof -
  let ?jobs = "[JObj [(''title'', JStr ''A'')],
              JObj [(''title'', JStr ''B''), (''location'', JNull)]]"
  let ?env = "an_env [(two_postings, JArr ?jobs)] (Inr two_postings)"
  have span: "json_span two_postings = two_postings"
    by (simp add: json_span_def two_postings_def strip_def lstrip_def
      rstrip_def isspace_def str_find_def str_rfind_def slice_def)
  have h1: "loads ?env (json_span two_postings) = Inr (JArr ?jobs)"
    by (simp add: span an_env_def table_loads_def)
  have h2: "JObj [(''title'', JStr ''B''), (''location'', JNull)] \<in> set ?jobs" by simp
  have h3: "get_truthy [(''title'', JStr ''B''), (''location'', JNull)] ''title''"
    by (simp add: get_truthy_def)
  have h4: "''location'' \<in> {''location'', ''job_type'', ''experience_level'', ''description'',
               ''requirements'', ''url''}" by simp
  have h5: "map_of [(''title'', JStr ''B''), (''location'', JNull)] ''location'' = Some JNull"
    by simp
  have h6: "\<forall>s. JNull \<noteq> JStr s" by simp
  have h7: "chat ?env (build_normalization_prompt ?env (get_or (rj_raw_content a_raw_job) [])
            (get_or (rj_company_name a_raw_job) [])) = Inr two_postings"
    by (simp add: an_env_def)
  from null_field_discards_unit [OF h1 h2 h3 h4 h5 h6, of a_raw_job] h7
  show ?thesis by blast
qed







lemma normalize_job_data_chat_error:
  "chat env (build_normalization_prompt env (get_or (rj_raw_content raw) [])
      (get_or (rj_company_name raw) [])) = Inl e \<Longrightarrow> normalize_job_data env raw = []"
  by (simp add: normalize_job_data_def Let_def)

lemma parse_llm_response_length:
  assumes "loads env (json_span out) = Inr (JArr jobs)"
  shows "length (parse_llm_response env out raw) \<le> length (filter (\<lambda>j. \<not> untitled j) jobs)"
proof (cases "normalize_loop raw jobs []")
  case (Inl e)
  with assms show ?thesis by (simp add: parse_llm_response_span)
next
  case (Inr r)
  from normalize_loop_length [OF this] Inr assms show ?thesis
    by (simp add: parse_llm_response_span)
qed

lemma response_spans:
  "json_span broken_response = broken_response"
  "json_span number_response = number_response"
  "json_span untitled_response = untitled_response"
  by (simp_all add: json_span_def broken_response_def number_response_def
      untitled_response_def strip_def lstrip_def rstrip_def isspace_def str_find_def
      str_rfind_def slice_def)

text \<open>
  Claim C5. Extraction always answers a list. Only the span from the first \<open>[\<close> to the
  last \<open>]\<close> of the trimmed response reaches \<open>json.loads\<close> (two parsers that agree on
  that span give the same result). The result is empty when a bracket is missing, when
  parsing raises, when the parsed value is not an array, and when the call to the model
  raises. An object whose title is missing or falsy is skipped: the result never has
  more entries than the array has titled elements, and removing the untitled elements
  from the array does not change what the loop computes.
\<close>

theorem extract_never_raises:
  "(CHR ''['' \<notin> set (strip out) \<or> CHR '']'' \<notin> set (strip out)
       \<longrightarrow> parse_llm_response env out raw = [])
   \<and> (loads env (json_span out) = Inl e \<longrightarrow> parse_llm_response env out raw = [])
   \<and> (loads env (json_span out) = Inr v \<and> (\<forall>xs. v \<noteq> JArr xs)
       \<longrightarrow> parse_llm_response env out raw = [])
   \<and> (loads env (json_span out) = loads env' (json_span out)
       \<longrightarrow> parse_llm_response env out raw = parse_llm_response env' out raw)
   \<and> (chat env (build_normalization_prompt env (get_or (rj_raw_content raw) [])
          (get_or (rj_company_name raw) [])) = Inl e
       \<longrightarrow> normalize_job_data env raw = [])
   \<and> (loads env (json_span out) = Inr (JArr jobs)
       \<longrightarrow> length (parse_llm_response env out raw) \<le> length (filter (\<lambda>j. \<not> untitled j) jobs))
   \<and> normalize_loop raw (filter (\<lambda>j. \<not> untitled j) jobs) [] = normalize_loop raw jobs []"
proof -
  have c1: "CHR ''['' \<notin> set (strip out) \<or> CHR '']'' \<notin> set (strip out)
       \<longrightarrow> parse_llm_response env out raw = []"
    by (auto simp: parse_llm_response_span str_find_absent str_rfind_absent)
  have c2: "loads env (json_span out) = Inl e \<longrightarrow> parse_llm_response env out raw = []"
    by (simp add: parse_llm_response_span)
  have c3: "loads env (json_span out) = Inr v \<and> (\<forall>xs. v \<noteq> JArr xs)
       \<longrightarrow> parse_llm_response env out raw = []"
    by (cases v) (simp_all add: parse_llm_response_span)
  have c4: "loads env (json_span out) = loads env' (json_span out)
       \<longrightarrow> parse_llm_response env out raw = parse_llm_response env' out raw"
    by (simp add: parse_llm_response_span)
  have c5: "chat env (build_normalization_prompt env (get_or (rj_raw_content raw) [])
          (get_or (rj_company_name raw) [])) = Inl e
       \<longrightarrow> normalize_job_data env raw = []"
    using normalize_job_data_chat_error by blast
  have c6: "loads env (json_span out) = Inr (JArr jobs)
       \<longrightarrow> length (parse_llm_response env out raw) \<le> length (filter (\<lambda>j. \<not> untitled j) jobs)"
    using parse_llm_response_length by blast
  have c7: "normalize_loop raw (filter (\<lambda>j. \<not> untitled j) jobs) [] = normalize_loop raw jobs []"
    by (rule normalize_loop_skips_untitled)
  from c1 c2 c3 c4 c5 c6 c7 show ?thesis by blast
qed

theorem extract_never_raises_witness:
  "parse_llm_response (an_env [] (Inr no_jobs_response)) no_jobs_response a_raw_job = []
   \<and> parse_llm_response (an_env [] (Inr broken_response)) broken_response a_raw_job = []
   \<and> parse_llm_response (an_env [(number_response, JNum 7)] (Inr number_response))
        number_response a_raw_job = []
   \<and> parse_llm_response (an_env [(number_response, JNum 7)] (Inr number_response))
        number_response a_raw_job
      = parse_llm_response (an_env [(number_response, JNum 7), (broken_response, JNull)]
          (Inl ServiceError)) number_response a_raw_job
   \<and> normalize_job_data (an_env [] (Inl ServiceError)) a_raw_job = []
   \<and> length (parse_llm_response
        (an_env [(untitled_response,
           JArr [JObj [(''location'', JStr ''NY'')], JObj [(''title'', JStr ''X'')]])]
           (Inr untitled_response)) untitled_response a_raw_job) \<le> 1"
proof -
  let ?jobs = "[JObj [(''location'', JStr ''NY'')], JObj [(''title'', JStr ''X'')]]"
  have h1: "CHR ''['' \<notin> set (strip no_jobs_response) \<or> CHR '']'' \<notin> set (strip no_jobs_response)"
    by (simp add: no_jobs_response_def strip_def lstrip_def rstrip_def isspace_def)
  have h2: "loads (an_env [] (Inr broken_response)) (json_span broken_response)
      = Inl JSONDecodeError"
    by (simp add: an_env_def table_loads_def)
  have h3: "loads (an_env [(number_response, JNum 7)] (Inr number_response))
        (json_span number_response) = Inr (JNum 7) \<and> (\<forall>xs. JNum 7 \<noteq> JArr xs)"
    by (simp add: an_env_def table_loads_def response_spans)
  have h5: "chat (an_env [] (Inl ServiceError))
      (build_normalization_prompt (an_env [] (Inl ServiceError))
         (get_or (rj_raw_content a_raw_job) []) (get_or (rj_company_name a_raw_job) []))
      = Inl ServiceError"
    by (simp add: an_env_def)
  have h6: "loads (an_env [(untitled_response, JArr ?jobs)] (Inr untitled_response))
      (json_span untitled_response) = Inr (JArr ?jobs)"
    by (simp add: an_env_def table_loads_def response_spans)
  have f: "length (filter (\<lambda>j. \<not> untitled j) ?jobs) = 1"
    by (simp add: untitled_def get_truthy_def)
  from h1 extract_never_raises [where out = no_jobs_response and env = "an_env [] (Inr no_jobs_response)"
      and raw = a_raw_job]
  have w1: "parse_llm_response (an_env [] (Inr no_jobs_response)) no_jobs_response a_raw_job = []"
    by blast
  from h2 extract_never_raises [where out = broken_response and env = "an_env [] (Inr broken_response)"
      and raw = a_raw_job and e = JSONDecodeError]
  have w2: "parse_llm_response (an_env [] (Inr broken_response)) broken_response a_raw_job = []"
    by blast
  from h3 extract_never_raises [where out = number_response
      and env = "an_env [(number_response, JNum 7)] (Inr number_response)"
      and raw = a_raw_job and v = "JNum 7"]
  have w3: "parse_llm_response (an_env [(number_response, JNum 7)] (Inr number_response))
        number_response a_raw_job = []"
    by blast
  have h4: "loads (an_env [(number_response, JNum 7)] (Inr number_response))
        (json_span number_response)
      = loads (an_env [(number_response, JNum 7), (broken_response, JNull)] (Inl ServiceError))
        (json_span number_response)"
    by (simp only: response_spans)
      (simp add: an_env_def table_loads_def number_response_def broken_response_def)
  from h4 extract_never_raises [where out = number_response
      and env = "an_env [(number_response, JNum 7)] (Inr number_response)"
      and env' = "an_env [(number_response, JNum 7), (broken_response, JNull)] (Inl ServiceError)"
      and raw = a_raw_job]
  have w4: "parse_llm_response (an_env [(number_response, JNum 7)] (Inr number_response))
        number_response a_raw_job
      = parse_llm_response (an_env [(number_response, JNum 7), (broken_response, JNull)]
          (Inl ServiceError)) number_response a_raw_job"
    by blast
  from h5 extract_never_raises [where env = "an_env [] (Inl ServiceError)"
      and raw = a_raw_job and e = ServiceError]
  have w5: "normalize_job_data (an_env [] (Inl ServiceError)) a_raw_job = []"
    by blast
  from h6 f extract_never_raises [where out = untitled_response
      and env = "an_env [(untitled_response, JArr ?jobs)] (Inr untitled_response)"
      and raw = a_raw_job and jobs = ?jobs]
  have w6: "length (parse_llm_response
        (an_env [(untitled_response, JArr ?jobs)] (Inr untitled_response))
        untitled_response a_raw_job) \<le> 1"
    by simp
  from w1 w2 w3 w4 w5 w6 show ?thesis by blast
qed




section \<open>Identity hasher\<close>

lemma length_step: "length (step k w st) = length st"
  by (induction k w st rule: step.induct) simp_all

lemma length_rounds: "length (rounds ks ws st) = length st"
  by (induction ks ws st rule: rounds.induct) (simp_all add: length_step)

lemma length_compress: "length (compress hs block) = length hs"
  by (simp add: compress_def length_rounds)

lemma length_foldl_compress: "length (foldl compress hs bs) = length hs"
  by (induction bs arbitrary: hs) (simp_all add: length_compress)

lemma length_sha256: "length (sha256 m) = 8"
  by (simp add: sha256_def length_foldl_compress H0_def)

lemma length_hexdigest: "length (hexdigest hs) = 8 * length hs"
  by (induction hs) (simp_all add: hexdigest_def hex32_def)

lemma hexdigit_range: "0 \<le> n \<Longrightarrow> n < 16 \<Longrightarrow> hexdigit n \<in> set ''0123456789abcdef''"
proof -
  assume "0 \<le> n" "n < 16"
  then have "nat n < length ''0123456789abcdef''" by simp
  then show ?thesis unfolding hexdigit_def by (rule nth_mem)
qed

lemma hex32_chars: "set (hex32 w) \<subseteq> set ''0123456789abcdef''"
proof
  fix x
  assume "x \<in> set (hex32 w)"
  then obtain i :: nat where "x = hexdigit ((w div 16 ^ (7 - i)) mod 16)"
    unfolding hex32_def by (auto simp only: set_map)
  moreover have "hexdigit ((w div 16 ^ (7 - i)) mod 16) \<in> set ''0123456789abcdef''"
    by (rule hexdigit_range) simp_all
  ultimately show "x \<in> set ''0123456789abcdef''" by (simp only:)
qed

lemma hexdigest_chars: "set (hexdigest hs) \<subseteq> set ''0123456789abcdef''"
proof
  fix x
  assume "x \<in> set (hexdigest hs)"
  then obtain w where w: "x \<in> set (hex32 w)"
    unfolding hexdigest_def by (auto simp only: set_concat set_map)
  from subsetD [OF hex32_chars w] show "x \<in> set ''0123456789abcdef''" .
qed

lemma unique_string_lower_cong:
  "lower a = lower a' \<Longrightarrow> lower b = lower b' \<Longrightarrow> lower c = lower c' \<Longrightarrow>
     unique_string a b c = unique_string a' b' c'"
  by (simp only: unique_string_def lower_append)

lemma unique_string_spaces:
  assumes "\<forall>ch \<in> set ws1 \<union> set ws2. isspace ch"
  shows "unique_string (ws1 @ a) b (c @ ws2) = unique_string a b c"
proof -
  have "strip (lower (ws1 @ (a @ '':'' @ b @ '':'' @ c) @ ws2))
      = strip (lower (a @ '':'' @ b @ '':'' @ c))"
    using assms by (intro strip_lower_spaces) auto
  then show ?thesis by (simp add: unique_string_def)
qed

lemma unique_string_plain: "unique_string ''a'' ''b'' ''c'' = ''a:b:c''"
  by code_simp

lemma unique_string_padded: "unique_string ''A'' '' b '' ''c'' = ''a: b :c''"
  by code_simp

lemma blocks_plain:
  "blocks (length (pad (encode ''a:b:c'')) div 64) (be32 (pad (encode ''a:b:c'')))
     = [1631216186, 1669332992, 0, 0, 0, 0, 0, 0, 0, 0, 0, 0, 0, 0, 0, 40] # []"
  by code_simp

lemma blocks_padded:
  "blocks (length (pad (encode ''a: b :c'')) div 64) (be32 (pad (encode ''a: b :c'')))
     = [1631199330, 540697472, 0, 0, 0, 0, 0, 0, 0, 0, 0, 0, 0, 0, 0, 56] # []"
  by code_simp

lemmas sha_simps = compress_def K256_def H0_def add32_def rotr_def Ch_def Maj_def
  bsig0_def bsig1_def ssig0_def ssig1_def

lemma compress_plain:
  "compress H0 [1631216186, 1669332992, 0, 0, 0, 0, 0, 0, 0, 0, 0, 0, 0, 0, 0, 40]
     = [2968388856, 2160394050, 1632083502, 2015541057, 183389297, 1509169242, 3585136778,
        824920414]"
  by (simp add: sha_simps)

lemma compress_padded:
  "compress H0 [1631199330, 540697472, 0, 0, 0, 0, 0, 0, 0, 0, 0, 0, 0, 0, 0, 56]
     = [1279061526, 1183422616, 1441872897, 453521219, 3600494199, 1902985841, 1781395848,
        1399826459]"
  by (simp add: sha_simps)

lemma hexdigest_plain:
  "hexdigest [2968388856, 2160394050, 1632083502, 2015541057, 183389297, 1509169242,
      3585136778, 824920414]
     = ''b0ee04f880c4ff4261479e2e7822b7410aee4c7159f4185ad5b0d88a312b495e''"
  by code_simp

lemma hexdigest_padded:
  "hexdigest [1279061526, 1183422616, 1441872897, 453521219, 3600494199, 1902985841,
      1781395848, 1399826459]
     = ''4c3cee164689989855f13c011b082f43d69b2e77716d42716a2df188536fa81b''"
  by code_simp

text \<open>The keys of \<open>(a, b, c)\<close> and of \<open>(A, " b ", c)\<close>, as \<open>hashlib\<close> gives them.\<close>

lemma key_plain:
  "generate_job_external_id ''a'' ''b'' ''c''
     = ''b0ee04f880c4ff4261479e2e7822b7410aee4c7159f4185ad5b0d88a312b495e''"
  by (simp only: generate_job_external_id_def sha256_def unique_string_plain blocks_plain
      foldl.simps compress_plain hexdigest_plain)

lemma key_padded:
  "generate_job_external_id ''A'' '' b '' ''c''
     = ''4c3cee164689989855f13c011b082f43d69b2e77716d42716a2df188536fa81b''"
  by (simp only: generate_job_external_id_def sha256_def unique_string_padded blocks_padded
      foldl.simps compress_padded hexdigest_padded)

text \<open>
  Claim C1, as the code has it. The key is a function of its three inputs, 64 lower-case
  hexadecimal digits long. It does not change when the source identifier is replaced by
  its upper-case form (where that form is exact), or more generally when each input is
  replaced by one with the same lower-case form. The trim is applied to the concatenation \<open>a:b:c\<close> and not to each
  input: whitespace before the source identifier and after the title does not change
  the key, whitespace around the url does (the key of \<open>(a, b, c)\<close> differs from the
  key of \<open>(A, " b ", c)\<close>).
\<close>

theorem external_id_invariance:
  "(upper_exact a \<longrightarrow>
      generate_job_external_id (upper a) b c = generate_job_external_id a b c)
   \<and> (lower a = lower a' \<and> lower b = lower b' \<and> lower c = lower c' \<longrightarrow>
      generate_job_external_id a b c = generate_job_external_id a' b' c')
   \<and> ((\<forall>ch \<in> set ws1 \<union> set ws2. isspace ch) \<longrightarrow>
      generate_job_external_id (ws1 @ a) b (c @ ws2) = generate_job_external_id a b c)
   \<and> length (generate_job_external_id a b c) = 64
   \<and> set (generate_job_external_id a b c) \<subseteq> set ''0123456789abcdef''"
proof -
  have c1: "generate_job_external_id (upper a) b c = generate_job_external_id a b c"
    using unique_string_lower_cong [of "upper a" a b b c c]
    by (simp add: generate_job_external_id_def lower_upper)
  have c2: "lower a = lower a' \<and> lower b = lower b' \<and> lower c = lower c' \<longrightarrow>
      generate_job_external_id a b c = generate_job_external_id a' b' c'"
    using unique_string_lower_cong [of a a' b b' c c']
    by (simp add: generate_job_external_id_def)
  have c3: "(\<forall>ch \<in> set ws1 \<union> set ws2. isspace ch) \<longrightarrow>
      generate_job_external_id (ws1 @ a) b (c @ ws2) = generate_job_external_id a b c"
    using unique_string_spaces [of ws1 ws2 a b c]
    by (simp add: generate_job_external_id_def)
  have c4: "length (generate_job_external_id a b c) = 64"
    by (simp add: generate_job_external_id_def length_hexdigest length_sha256)
  have c5: "set (generate_job_external_id a b c) \<subseteq> set ''0123456789abcdef''"
    unfolding generate_job_external_id_def by (rule hexdigest_chars)
  from c1 c2 c3 c4 c5 show ?thesis by blast
qed

theorem external_id_invariance_witness:
  "generate_job_external_id ''CP-1'' ''https://x.example/j'' ''Engineer''
     = generate_job_external_id ''cp-1'' ''https://x.example/j'' ''Engineer''
   \<and> generate_job_external_id ''cp-1'' ''HTTPS://x.example/J'' ''ENGINEER''
     = generate_job_external_id ''cp-1'' ''https://x.example/j'' ''Engineer''
   \<and> generate_job_external_id ('' '' @ ''cp-1'') ''https://x.example/j'' (''Engineer'' @ '' '')
     = generate_job_external_id ''cp-1'' ''https://x.example/j'' ''Engineer''"
proof -
  have h1: "upper_exact ''cp-1''" by (simp add: upper_exact_def)
  have u: "upper ''cp-1'' = ''CP-1''" by code_simp
  have h2: "lower ''cp-1'' = lower ''cp-1'' \<and> lower ''HTTPS://x.example/J'' = lower ''https://x.example/j''
      \<and> lower ''ENGINEER'' = lower ''Engineer''" by code_simp
  have h3: "\<forall>ch \<in> set '' '' \<union> set '' ''. isspace ch" by (simp add: isspace_def)
  from external_id_invariance [of "''cp-1''" "''https://x.example/j''" "''Engineer''"
      "''cp-1''" "''https://x.example/j''" "''Engineer''" "'' ''" "'' ''"] h1 u h3
  have w1: "generate_job_external_id ''CP-1'' ''https://x.example/j'' ''Engineer''
     = generate_job_external_id ''cp-1'' ''https://x.example/j'' ''Engineer''"
    and w3: "generate_job_external_id ('' '' @ ''cp-1'') ''https://x.example/j'' (''Engineer'' @ '' '')
     = generate_job_external_id ''cp-1'' ''https://x.example/j'' ''Engineer''"
    by simp_all
  from external_id_invariance [of "''cp-1''" "''HTTPS://x.example/J''" "''ENGINEER''"
      "''cp-1''" "''https://x.example/j''" "''Engineer''" "[]" "[]"] h2
  have w2: "generate_job_external_id ''cp-1'' ''HTTPS://x.example/J'' ''ENGINEER''
     = generate_job_external_id ''cp-1'' ''https://x.example/j'' ''Engineer''"
    by blast
  from w1 w2 w3 show ?thesis by blast
qed

theorem external_id_padded_url_counterexample:
  "generate_job_external_id ''a'' ''b'' ''c''
     \<noteq> generate_job_external_id (upper ''a'') ('' '' @ ''b'' @ '' '') ''c''"
proof -
  have "upper ''a'' = ''A''" by code_simp
  then show ?thesis by (simp add: key_plain key_padded)
qed


section \<open>Dispatcher\<close>

lemma queue_send_email [simp]:
  "queue_entries (working (send_email_notification w u job s)) = queue_entries (working s)"
  by (simp add: send_email_notification_def db_commit_def db_add_notification_def
      split: option.splits)

lemma queue_send_discord [simp]:
  "queue_entries (working (send_discord_notification w u job s)) = queue_entries (working s)"
  by (simp add: send_discord_notification_def db_commit_def db_add_notification_def
      split: option.splits)

lemma queue_send_dashboard [simp]:
  "queue_entries (working (send_dashboard_notification w u job s)) = queue_entries (working s)"
  by (simp add: send_dashboard_notification_def db_commit_def db_add_notification_def)

lemma queue_send_channel [simp]:
  "queue_entries (working (send_channel w u job ch s)) = queue_entries (working s)"
  by (simp add: send_channel_def Let_def)

lemma queue_fold_send_channel:
  "queue_entries (working (fold (send_channel w u job) chs s)) = queue_entries (working s)"
  by (induction chs arbitrary: s) simp_all

lemma entry_gone_after_delete:
  "nq_id entry \<notin> nq_id ` set (queue_entries (stored (db_commit (db_delete_entry entry s))))"
  by (auto simp: db_commit_def db_delete_entry_def)

lemma process_entry_found:
  assumes "List.find (\<lambda>u. user_id u = nq_user_id entry) (users (working s)) = Some u"
    and "List.find (\<lambda>j. jp_id j = nq_job_posting_id entry) (job_postings (working s)) = Some job"
  shows "process_entry w entry s =
     db_commit (db_delete_entry entry
       (fold (send_channel w u job) (split_comma (channels entry)) s))"
  using assms by (simp add: process_entry_def)

lemma process_entry_stale:
  assumes "List.find (\<lambda>u. user_id u = nq_user_id entry) (users (working s)) = None
     \<or> List.find (\<lambda>j. jp_id j = nq_job_posting_id entry) (job_postings (working s)) = None"
  shows "process_entry w entry s = db_delete_entry entry s"
  using assms by (auto simp: process_entry_def split: option.splits)

lemma split_email_discord: "split_comma ''email,discord'' = [''email'', ''discord'']"
  by simp

lemma strip_channel_names:
  "strip ''email'' = ''email''" "strip ''discord'' = ''discord''"
  "strip ''dashboard'' = ''dashboard''"
  by (simp_all add: strip_def lstrip_def rstrip_def isspace_def)

lemma send_channel_unknown:
  "strip ch \<notin> {''email'', ''discord'', ''dashboard''} \<Longrightarrow> send_channel w u job ch s = s"
  by (simp add: send_channel_def Let_def)

lemma fold_send_channel_known:
  "fold (send_channel w u job)
       (filter (\<lambda>ch. strip ch \<in> {''email'', ''discord'', ''dashboard''}) chs) s
     = fold (send_channel w u job) chs s"
proof (induction chs arbitrary: s)
  case Nil
  then show ?case by simp
next
  case (Cons ch chs)
  show ?case
  proof (cases "strip ch \<in> {''email'', ''discord'', ''dashboard''}")
    case True
    with Cons show ?thesis by simp
  next
    case False
    then have "send_channel w u job ch s = s" by (rule send_channel_unknown)
    with False Cons show ?thesis by simp
  qed
qed

lemma fold_send_channel_all_unknown:
  "\<forall>ch \<in> set chs. strip ch \<notin> {''email'', ''discord'', ''dashboard''} \<Longrightarrow>
     fold (send_channel w u job) chs s = s"
  by (induction chs arbitrary: s) (simp_all add: send_channel_unknown)

text \<open>
  Claim C7. For an entry whose subscriber and posting exist and whose channels are
  \<open>email,discord\<close> (the mail and webhook channels), with a webhook address configured,
  the mail transport succeeding and the webhook transport raising: exactly two
  notification records are appended, \<open>SENT\<close> for the mail and \<open>FAILED\<close> with the text of
  the error for the webhook, and both are committed. Whatever the channels and the
  outcomes are, processing the entry returns normally and the entry is deleted and the
  deletion committed.
\<close>

theorem dispatch_records_each_channel:
  "(List.find (\<lambda>u. user_id u = nq_user_id entry) (users (working s)) = Some u
    \<and> List.find (\<lambda>j. jp_id j = nq_job_posting_id entry) (job_postings (working s)) = Some job
    \<longrightarrow> nq_id entry \<notin> nq_id ` set (queue_entries (stored (process_entry w entry s)))
       \<and> stored (process_entry w entry s) = working (process_entry w entry s))
   \<and> (List.find (\<lambda>u. user_id u = nq_user_id entry) (users (working s)) = Some u
    \<and> List.find (\<lambda>j. jp_id j = nq_job_posting_id entry) (job_postings (working s)) = Some job
    \<and> channels entry = ''email,discord''
    \<and> discord_webhook_url u = Some hook \<and> hook \<noteq> []
    \<and> smtp_send w (tick s) u job = None
    \<and> webhook_execute w (tick s + 1) u job = Some err
    \<longrightarrow> notifications (stored (process_entry w entry s)) =
          notifications (working s) @
            [\<lparr>n_user_id = user_id u, n_job_posting_id = jp_id job, channel = EMAIL,
              status = SENT, sent_at = Some (clock w (tick s)), error_message = None\<rparr>,
             \<lparr>n_user_id = user_id u, n_job_posting_id = jp_id job, channel = DISCORD,
              status = FAILED, sent_at = None, error_message = Some err\<rparr>])"
proof (intro conjI impI)
  assume a: "List.find (\<lambda>u. user_id u = nq_user_id entry) (users (working s)) = Some u
    \<and> List.find (\<lambda>j. jp_id j = nq_job_posting_id entry) (job_postings (working s)) = Some job"
  then have p: "process_entry w entry s =
     db_commit (db_delete_entry entry
       (fold (send_channel w u job) (split_comma (channels entry)) s))"
    using process_entry_found by blast
  show "nq_id entry \<notin> nq_id ` set (queue_entries (stored (process_entry w entry s)))"
    unfolding p by (rule entry_gone_after_delete)
  show "stored (process_entry w entry s) = working (process_entry w entry s)"
    unfolding p by (simp add: db_commit_def)
next
  assume a: "List.find (\<lambda>u. user_id u = nq_user_id entry) (users (working s)) = Some u
    \<and> List.find (\<lambda>j. jp_id j = nq_job_posting_id entry) (job_postings (working s)) = Some job
    \<and> channels entry = ''email,discord''
    \<and> discord_webhook_url u = Some hook \<and> hook \<noteq> []
    \<and> smtp_send w (tick s) u job = None
    \<and> webhook_execute w (tick s + 1) u job = Some err"
  then have p: "process_entry w entry s =
     db_commit (db_delete_entry entry
       (fold (send_channel w u job) [''email'', ''discord''] s))"
    using process_entry_found [of entry s u job w] by (simp only: split_email_discord)
  have e: "send_channel w u job ''email'' s = send_email_notification w u job s"
    by (simp add: send_channel_def strip_channel_names)
  have d: "send_channel w u job ''discord'' s' = send_discord_notification w u job s'" for s'
    by (simp add: send_channel_def strip_channel_names)
  from a show "notifications (stored (process_entry w entry s)) =
          notifications (working s) @
            [\<lparr>n_user_id = user_id u, n_job_posting_id = jp_id job, channel = EMAIL,
              status = SENT, sent_at = Some (clock w (tick s)), error_message = None\<rparr>,
             \<lparr>n_user_id = user_id u, n_job_posting_id = jp_id job, channel = DISCORD,
              status = FAILED, sent_at = None, error_message = Some err\<rparr>]"
    unfolding p
    by (simp add: e d send_email_notification_def send_discord_notification_def
        db_commit_def db_add_notification_def db_delete_entry_def)
qed

theorem dispatch_records_each_channel_witness:
  "notifications (run_notification_pipeline a_world (a_db [an_entry ''q1'' ''u1'' ''email,discord'']) 0)
     = [\<lparr>n_user_id = ''u1'', n_job_posting_id = ''p1'', channel = EMAIL,
         status = SENT, sent_at = Some 1000, error_message = None\<rparr>,
        \<lparr>n_user_id = ''u1'', n_job_posting_id = ''p1'', channel = DISCORD,
         status = FAILED, sent_at = None, error_message = Some ''HTTP 500''\<rparr>]
   \<and> queue_entries (run_notification_pipeline a_world (a_db [an_entry ''q1'' ''u1'' ''email,discord'']) 0)
     = []"
proof -
  let ?e = "an_entry ''q1'' ''u1'' ''email,discord''"
  let ?s = "SessionLocal (a_db [?e]) 0"
  have h: "List.find (\<lambda>u. user_id u = nq_user_id ?e) (users (working ?s)) = Some (a_subscriber [])
    \<and> List.find (\<lambda>j. jp_id j = nq_job_posting_id ?e) (job_postings (working ?s))
        = Some (a_posting None None None)
    \<and> channels ?e = ''email,discord''
    \<and> discord_webhook_url (a_subscriber []) = Some ''https://discord.example/hook''
    \<and> ''https://discord.example/hook'' \<noteq> []
    \<and> smtp_send a_world (tick ?s) (a_subscriber []) (a_posting None None None) = None
    \<and> webhook_execute a_world (tick ?s + 1) (a_subscriber []) (a_posting None None None)
        = Some ''HTTP 500''"
    by (simp add: SessionLocal_def a_db_def an_entry_def a_subscriber_def a_posting_def
        a_world_def)
  have r: "run_notification_pipeline a_world (a_db [?e]) 0 = stored (process_entry a_world ?e ?s)"
    by (simp add: run_notification_pipeline_def process_notification_queue_def db_close_def
        SessionLocal_def a_db_def Let_def)
  have q: "queue_entries (working ?s) = [?e]" "notifications (working ?s) = []"
    by (simp_all add: SessionLocal_def a_db_def)
  from dispatch_records_each_channel [of ?e ?s "a_subscriber []" "a_posting None None None"
      a_world "''https://discord.example/hook''" "''HTTP 500''"] h
  have n: "notifications (stored (process_entry a_world ?e ?s)) =
          notifications (working ?s) @
            [\<lparr>n_user_id = user_id (a_subscriber []), n_job_posting_id = jp_id (a_posting None None None),
              channel = EMAIL, status = SENT, sent_at = Some (clock a_world (tick ?s)),
              error_message = None\<rparr>,
             \<lparr>n_user_id = user_id (a_subscriber []), n_job_posting_id = jp_id (a_posting None None None),
              channel = DISCORD, status = FAILED, sent_at = None,
              error_message = Some ''HTTP 500''\<rparr>]"
    and g: "nq_id ?e \<notin> nq_id ` set (queue_entries (stored (process_entry a_world ?e ?s)))"
    by blast+
  have qe: "queue_entries (stored (process_entry a_world ?e ?s)) = []"
    using h process_entry_found [of ?e ?s "a_subscriber []" "a_posting None None None" a_world]
    by (simp add: db_commit_def db_delete_entry_def queue_fold_send_channel q)
  from n qe show ?thesis
    unfolding r by (simp add: q a_subscriber_def a_posting_def a_world_def SessionLocal_def a_db_def)
qed

text \<open>
  Claim C10. A channel name that, trimmed, is not \<open>email\<close>, \<open>discord\<close> or \<open>dashboard\<close> is
  skipped: the session is left as it was, so nothing is sent (the count of outside
  calls does not move) and no notification record is written; the channel loop gives
  the same result as on the list with those names removed; and an entry made of such
  names only is still deleted, and the deletion committed.
\<close>

theorem unknown_channels_ignored:
  "(strip ch \<notin> {''email'', ''discord'', ''dashboard''} \<longrightarrow> send_channel w u job ch s = s)
   \<and> fold (send_channel w u job)
         (filter (\<lambda>ch. strip ch \<in> {''email'', ''discord'', ''dashboard''}) chs) s
       = fold (send_channel w u job) chs s
   \<and> (List.find (\<lambda>u. user_id u = nq_user_id entry) (users (working s)) = Some u
      \<and> List.find (\<lambda>j. jp_id j = nq_job_posting_id entry) (job_postings (working s)) = Some job
      \<and> (\<forall>ch \<in> set (split_comma (channels entry)).
            strip ch \<notin> {''email'', ''discord'', ''dashboard''})
      \<longrightarrow> process_entry w entry s = db_commit (db_delete_entry entry s)
         \<and> notifications (stored (process_entry w entry s)) = notifications (working s)
         \<and> tick (process_entry w entry s) = tick s
         \<and> nq_id entry \<notin> nq_id ` set (queue_entries (stored (process_entry w entry s))))"
proof (intro conjI impI)
  assume "strip ch \<notin> {''email'', ''discord'', ''dashboard''}"
  then show "send_channel w u job ch s = s" by (rule send_channel_unknown)
next
  show "fold (send_channel w u job)
         (filter (\<lambda>ch. strip ch \<in> {''email'', ''discord'', ''dashboard''}) chs) s
       = fold (send_channel w u job) chs s"
    by (rule fold_send_channel_known)
next
  assume a: "List.find (\<lambda>u. user_id u = nq_user_id entry) (users (working s)) = Some u
      \<and> List.find (\<lambda>j. jp_id j = nq_job_posting_id entry) (job_postings (working s)) = Some job
      \<and> (\<forall>ch \<in> set (split_comma (channels entry)).
            strip ch \<notin> {''email'', ''discord'', ''dashboard''})"
  then have f: "fold (send_channel w u job) (split_comma (channels entry)) s = s"
    using fold_send_channel_all_unknown by blast
  from a have p: "process_entry w entry s = db_commit (db_delete_entry entry s)"
    using process_entry_found [of entry s u job w] by (simp add: f)
  show "process_entry w entry s = db_commit (db_delete_entry entry s)" by (rule p)
  show "notifications (stored (process_entry w entry s)) = notifications (working s)"
    unfolding p by (simp add: db_commit_def db_delete_entry_def)
  show "tick (process_entry w entry s) = tick s"
    unfolding p by (simp add: db_commit_def db_delete_entry_def)
  show "nq_id entry \<notin> nq_id ` set (queue_entries (stored (process_entry w entry s)))"
    unfolding p by (rule entry_gone_after_delete)
qed

theorem unknown_channels_ignored_witness:
  "run_notification_pipeline a_world (a_db [an_entry ''q1'' ''u1'' ''sms, push'']) 0
     = a_db []"
proof -
  let ?e = "an_entry ''q1'' ''u1'' ''sms, push''"
  let ?s = "SessionLocal (a_db [?e]) 0"
  have sp: "split_comma (channels ?e) = [''sms'', '' push'']"
    by (simp add: an_entry_def)
  have st: "strip ''sms'' = ''sms''" "strip '' push'' = ''push''"
    by (simp_all add: strip_def lstrip_def rstrip_def isspace_def)
  have h: "List.find (\<lambda>u. user_id u = nq_user_id ?e) (users (working ?s)) = Some (a_subscriber [])
    \<and> List.find (\<lambda>j. jp_id j = nq_job_posting_id ?e) (job_postings (working ?s))
        = Some (a_posting None None None)
    \<and> (\<forall>ch \<in> set (split_comma (channels ?e)).
          strip ch \<notin> {''email'', ''discord'', ''dashboard''})"
    unfolding sp
    by (simp add: st SessionLocal_def a_db_def an_entry_def a_subscriber_def a_posting_def)
  have r: "run_notification_pipeline a_world (a_db [?e]) 0 = stored (process_entry a_world ?e ?s)"
    by (simp add: run_notification_pipeline_def process_notification_queue_def db_close_def
        SessionLocal_def a_db_def Let_def)
  from unknown_channels_ignored [of "''sms''" a_world "a_subscriber []" "a_posting None None None"
      ?s "[]" ?e] h
  have "process_entry a_world ?e ?s = db_commit (db_delete_entry ?e ?s)" by blast
  then show ?thesis
    unfolding r by (simp add: db_commit_def db_delete_entry_def SessionLocal_def a_db_def)
qed

text \<open>
  Claim C8, on the code. For an entry whose subscriber or posting is gone, no channel is
  attempted and no record is written, the loop goes on, and \<open>db.delete(entry)\<close> is
  called, but without the \<open>db.commit()\<close> that the other path makes. The deletion
  therefore lasts only if a later entry of the same drain commits. Here the queue holds
  one such entry alone: after the drain, with the session closed, the table still
  holds it.
\<close>

theorem stale_entry_survives_drain:
  "run_notification_pipeline a_world (a_db [an_entry ''q1'' ''gone'' ''email'']) 0
     = a_db [an_entry ''q1'' ''gone'' ''email'']"
  by (simp add: run_notification_pipeline_def process_notification_queue_def db_close_def
      SessionLocal_def a_db_def Let_def process_entry_def db_delete_entry_def an_entry_def
      a_subscriber_def)

lemma stale_entry_dropped_when_followed:
  "run_notification_pipeline a_world
      (a_db [an_entry ''q1'' ''gone'' ''email'', an_entry ''q2'' ''u1'' ''dashboard'']) 0
     = (a_db [])\<lparr>notifications :=
         [\<lparr>n_user_id = ''u1'', n_job_posting_id = ''p1'', channel = DASHBOARD,
           status = SENT, sent_at = Some 1000, error_message = None\<rparr>]\<rparr>"
  by (simp add: run_notification_pipeline_def process_notification_queue_def db_close_def
      SessionLocal_def a_db_def Let_def process_entry_def db_delete_entry_def an_entry_def
      a_subscriber_def a_posting_def send_channel_def strip_channel_names
      send_dashboard_notification_def db_commit_def db_add_notification_def a_world_def)

lemma stale_entry_in_session:
  assumes "List.find (\<lambda>u. user_id u = nq_user_id entry) (users (working s)) = None
     \<or> List.find (\<lambda>j. jp_id j = nq_job_posting_id entry) (job_postings (working s)) = None"
  shows "notifications (working (process_entry w entry s)) = notifications (working s)"
    and "tick (process_entry w entry s) = tick s"
    and "stored (process_entry w entry s) = stored s"
    and "nq_id entry \<notin> nq_id ` set (queue_entries (working (process_entry w entry s)))"
  using process_entry_stale [OF assms, of w]
  by (auto simp: db_delete_entry_def)


section \<open>Admission\<close>

lemma find_append_None:
  "List.find P xs = None \<Longrightarrow> List.find P (xs @ ys) = List.find P ys"
  by (induction xs) (auto split: if_splits)

lemma touch_first_append:
  "List.find (\<lambda>j. external_id j = key) js = None \<Longrightarrow> external_id p = key \<Longrightarrow>
     touch_first key now (js @ [p]) = js @ [p\<lparr>last_seen_at := now, jp_is_active := True\<rparr>]"
  by (induction js) (auto split: if_splits)

lemma save_new_job_new:
  assumes "List.find (\<lambda>j. external_id j =
              generate_job_external_id page_id (nj_url c) (nj_title c))
            (job_postings (working s)) = None"
  shows "save_new_job w c page_id s =
     (Some (new_job_posting w c page_id
              (generate_job_external_id page_id (nj_url c) (nj_title c)) (tick s)),
      db_commit (db_add_job
         (new_job_posting w c page_id
            (generate_job_external_id page_id (nj_url c) (nj_title c)) (tick s))
         (s\<lparr>tick := tick s + 5\<rparr>)))"
  using assms by (simp add: save_new_job_def Let_def)

lemma save_new_job_existing:
  assumes "List.find (\<lambda>j. external_id j =
              generate_job_external_id page_id (nj_url c) (nj_title c))
            (job_postings (working s)) = Some e"
  shows "save_new_job w c page_id s =
     (None,
      db_commit (s\<lparr>working := (working s)\<lparr>job_postings :=
          touch_first (generate_job_external_id page_id (nj_url c) (nj_title c))
            (clock w (tick s)) (job_postings (working s))\<rparr>,
        tick := tick s + 1\<rparr>))"
  using assms by (simp add: save_new_job_def Let_def)

text \<open>
  Claim C2. When a candidate whose key is not yet stored is admitted, and then a
  candidate with the same source, url and title (its other fields may differ) is
  admitted: the first call returns the new posting and stores it; the second call
  returns nothing and stores no further posting; after it the stored posting is the
  one of the first call with \<open>last_seen_at\<close> set to the time of the second call and
  \<open>is_active\<close> set, every other field as the first call wrote it.
\<close>

theorem same_candidate_twice:
  assumes new: "List.find (\<lambda>j. external_id j =
              generate_job_external_id page_id (nj_url c1) (nj_title c1))
            (job_postings (working s0)) = None"
    and same: "nj_url c2 = nj_url c1" "nj_title c2 = nj_title c1"
  shows "fst (save_new_job w c1 page_id s0)
       = Some (new_job_posting w c1 page_id
                (generate_job_external_id page_id (nj_url c1) (nj_title c1)) (tick s0))
     \<and> fst (save_new_job w c2 page_id (snd (save_new_job w c1 page_id s0))) = None
     \<and> job_postings (stored (snd (save_new_job w c1 page_id s0)))
       = job_postings (working s0) @
           [new_job_posting w c1 page_id
              (generate_job_external_id page_id (nj_url c1) (nj_title c1)) (tick s0)]
     \<and> job_postings (stored (snd (save_new_job w c2 page_id
                                  (snd (save_new_job w c1 page_id s0)))))
       = job_postings (working s0) @
           [(new_job_posting w c1 page_id
              (generate_job_external_id page_id (nj_url c1) (nj_title c1)) (tick s0))
              \<lparr>last_seen_at := clock w (tick s0 + 5), jp_is_active := True\<rparr>]"
proof -
  let ?key = "generate_job_external_id page_id (nj_url c1) (nj_title c1)"
  let ?p = "new_job_posting w c1 page_id ?key (tick s0)"
  let ?s1 = "db_commit (db_add_job ?p (s0\<lparr>tick := tick s0 + 5\<rparr>))"
  have first: "save_new_job w c1 page_id s0 = (Some ?p, ?s1)"
    using new by (rule save_new_job_new)
  have w1: "job_postings (working ?s1) = job_postings (working s0) @ [?p]"
    by (simp add: db_commit_def db_add_job_def)
  have st1: "job_postings (stored ?s1) = job_postings (working s0) @ [?p]"
    by (simp add: db_commit_def db_add_job_def)
  have t1: "tick ?s1 = tick s0 + 5"
    by (simp add: db_commit_def db_add_job_def)
  have kp: "external_id ?p = ?key" by (simp add: new_job_posting_def)
  have found: "List.find (\<lambda>j. external_id j =
              generate_job_external_id page_id (nj_url c2) (nj_title c2))
            (job_postings (working ?s1)) = Some ?p"
    using new kp by (simp add: same w1 find_append_None)
  have second: "save_new_job w c2 page_id ?s1 =
     (None,
      db_commit (?s1\<lparr>working := (working ?s1)\<lparr>job_postings :=
          touch_first ?key (clock w (tick ?s1)) (job_postings (working ?s1))\<rparr>,
        tick := tick ?s1 + 1\<rparr>))"
    using save_new_job_existing [OF found, of w] by (simp only: same)
  have touched: "touch_first ?key (clock w (tick ?s1)) (job_postings (working ?s1))
      = job_postings (working s0) @ [?p\<lparr>last_seen_at := clock w (tick s0 + 5), jp_is_active := True\<rparr>]"
    using touch_first_append [OF new kp] by (simp only: w1 t1)
  have st2: "job_postings (stored (snd (save_new_job w c2 page_id ?s1)))
      = job_postings (working s0) @ [?p\<lparr>last_seen_at := clock w (tick s0 + 5), jp_is_active := True\<rparr>]"
    unfolding second using touched by (simp add: db_commit_def)
  from first second st1 st2 show ?thesis by simp
qed

theorem same_candidate_twice_witness:
  "fst (save_new_job a_world (a_candidate (Some ''Berlin'')) ''cp1''
          (snd (save_new_job a_world (a_candidate (Some ''Remote'')) ''cp1''
                  (SessionLocal an_empty_db 0)))) = None
   \<and> map location (job_postings (stored
          (snd (save_new_job a_world (a_candidate (Some ''Berlin'')) ''cp1''
             (snd (save_new_job a_world (a_candidate (Some ''Remote'')) ''cp1''
                     (SessionLocal an_empty_db 0))))))) = [Some ''Remote'']
   \<and> map last_seen_at (job_postings (stored
          (snd (save_new_job a_world (a_candidate (Some ''Berlin'')) ''cp1''
             (snd (save_new_job a_world (a_candidate (Some ''Remote'')) ''cp1''
                     (SessionLocal an_empty_db 0))))))) = [1005]"
proof -
  let ?s0 = "SessionLocal an_empty_db 0"
  let ?c1 = "a_candidate (Some ''Remote'')"
  let ?c2 = "a_candidate (Some ''Berlin'')"
  have h1: "List.find (\<lambda>j. external_id j =
              generate_job_external_id ''cp1'' (nj_url ?c1) (nj_title ?c1))
            (job_postings (working ?s0)) = None"
    by (simp add: SessionLocal_def an_empty_db_def)
  have h2: "nj_url ?c2 = nj_url ?c1" "nj_title ?c2 = nj_title ?c1"
    by (simp_all add: a_candidate_def)
  have w: "job_postings (working ?s0) = []" "tick ?s0 = 0"
    by (simp_all add: SessionLocal_def an_empty_db_def)
  from same_candidate_twice [OF h1 h2, of a_world]
  show ?thesis
    by (simp add: w new_job_posting_def a_candidate_def a_world_def)
qed

end
